theory Spec2Isabelle
  imports Main
begin

section \<open>JavaScript values, thrown errors and the runtime\<close>

text \<open>
  Plain data as the program handles it: what \<^verbatim>\<open>JSON.parse\<close> returns, what object and
  string literals denote, and \<^verbatim>\<open>undefined\<close> for an absent property. An object is the
  list of its own enumerable properties in enumeration order (\<^verbatim>\<open>Object.entries\<close>); its
  keys are distinct. Numbers are restricted to integers: the protocol carries counts
  and status codes only, and no definition below computes with a number.
\<close>

datatype jsdata =
    JUndefined
  | JNull
  | JBool bool
  | JNum int
  | JStr string
  | JArr "jsdata list"
  | JObj "(string \<times> jsdata) list"

text \<open>
  An arbitrary value (TypeScript's \<^verbatim>\<open>unknown\<close>): plain data, or any other object of the
  runtime, named by a handle: an object graph with a reference cycle, a class instance,
  an object without prototype. Only the runtime's own primitives look inside a
  \<open>Host\<close> value.
\<close>

datatype jsval = Plain jsdata | Host nat

text \<open>A thrown value: \<^verbatim>\<open>new Error(m)\<close>, or one of the runtime's own error classes.\<close>

datatype error = JsError string | JsTypeError string | JsSyntaxError string

fun error_message :: "error \<Rightarrow> string" where
  "error_message (JsError m) = m"
| "error_message (JsTypeError m) = m"
| "error_message (JsSyntaxError m) = m"

text \<open>
  The built-ins the program calls. They belong to the JavaScript runtime, not to the
  repository, so they are parameters of the model: every theorem below that mentions
  \<open>rt\<close> holds for every runtime. Each one that can throw returns a sum
  (\<open>Inl\<close> the thrown error).
  \<^item> \<open>Number_toString\<close>: \<^verbatim>\<open>n.toString()\<close>, the canonical decimal form of a number;
  \<^item> \<open>JSON_stringify\<close>: \<^verbatim>\<open>JSON.stringify(v)\<close>; it returns \<^verbatim>\<open>undefined\<close> (\<open>None\<close>) for
    \<^verbatim>\<open>undefined\<close> and for functions, and throws on a reference cycle;
  \<^item> \<open>String_coerce\<close>: \<^verbatim>\<open>String(v)\<close>, also the coercion of a template literal; it throws
    when the object has no usable \<^verbatim>\<open>toString\<close>/\<^verbatim>\<open>valueOf\<close>;
  \<^item> \<open>JSON_parse\<close>: \<^verbatim>\<open>JSON.parse(s)\<close>, which throws a \<^verbatim>\<open>SyntaxError\<close> on malformed text;
  \<^item> \<open>Number_positive\<close>: the test \<^verbatim>\<open>Number(v) > 0\<close>.
\<close>

record runtime =
  Number_toString :: "int \<Rightarrow> string"
  JSON_stringify :: "jsval \<Rightarrow> error + string option"
  String_coerce :: "jsval \<Rightarrow> error + string"
  JSON_parse :: "string \<Rightarrow> error + jsdata"
  Number_positive :: "jsdata \<Rightarrow> bool"

text \<open>Truthiness (\<^verbatim>\<open>if (v)\<close>, \<^verbatim>\<open>!v\<close>, \<^verbatim>\<open>a || b\<close>).\<close>

fun js_truthy :: "jsdata \<Rightarrow> bool" where
  "js_truthy JUndefined = False"
| "js_truthy JNull = False"
| "js_truthy (JBool b) = b"
| "js_truthy (JNum n) = (n \<noteq> 0)"
| "js_truthy (JStr s) = (s \<noteq> [])"
| "js_truthy (JArr xs) = True"
| "js_truthy (JObj kvs) = True"

text \<open>
  Reading a property \<^verbatim>\<open>v.k\<close>: a \<^verbatim>\<open>TypeError\<close> on \<^verbatim>\<open>undefined\<close> and \<^verbatim>\<open>null\<close>, the own
  property of an object, \<^verbatim>\<open>undefined\<close> otherwise (the program reads only \<^verbatim>\<open>ref\<close>,
  \<^verbatim>\<open>prompt\<close> and \<^verbatim>\<open>config\<close> this way, none of which is inherited).
\<close>

fun js_get :: "jsdata \<Rightarrow> string \<Rightarrow> error + jsdata" where
  "js_get JUndefined k = Inl (JsTypeError (''Cannot read properties of undefined (reading '' @ k @ '')''))"
| "js_get JNull k = Inl (JsTypeError (''Cannot read properties of null (reading '' @ k @ '')''))"
| "js_get (JObj kvs) k = Inr (case map_of kvs k of None \<Rightarrow> JUndefined | Some v \<Rightarrow> v)"
| "js_get v k = Inr JUndefined"

text \<open>Array indexing \<^verbatim>\<open>xs[i]\<close> with an integer index: \<^verbatim>\<open>undefined\<close> out of range.\<close>

definition at_index :: "'a list \<Rightarrow> int \<Rightarrow> 'a option" where
  "at_index xs i = (if 0 \<le> i \<and> i < int (length xs) then Some (xs ! nat i) else None)"

text \<open>\<^verbatim>\<open>try { m } catch (e) { h(e) }\<close> for a computation that returns or throws.\<close>

definition try_catch :: "error + 'a \<Rightarrow> (error \<Rightarrow> error + 'a) \<Rightarrow> error + 'a" where
  "try_catch m h = (case m of Inl e \<Rightarrow> h e | Inr x \<Rightarrow> Inr x)"

section \<open>The tag codec and the result decoder (AOProcess.ts, hb.ts)\<close>

text \<open>\<^verbatim>\<open>interface AOMessageTag { name: string; value: string }\<close>. The value type is a
  parameter: tags received from the network carry strings, tags built by \<open>obj2tags\<close>
  carry whatever \<open>toString\<close> returned.\<close>

record 'v AOMessageTag =
  name :: string
  "value" :: 'v

record ResponseMessage =
  Tags :: "string AOMessageTag list option"
  Data :: "string option"

text \<open>\<^verbatim>\<open>type MessageResult = { Output: any; Messages: any[]; Spawns: any[]; Error?: any }\<close>.
  An absent \<open>Messages\<close> field is \<open>None\<close>, an absent \<open>Error\<close> is \<open>JUndefined\<close>.\<close>

record MessageResult =
  Output :: jsdata
  Messages :: "ResponseMessage list option"
  Spawns :: "jsdata list"
  Error :: jsdata

text \<open>
  \<^verbatim>\<open>AOProcess.toString\<close>:
  \<^verbatim>\<open>
  if (typeof value === "string") return value;
  if (typeof value === "number") return value.toString();
  try { return JSON.stringify(value); } catch { return String(value); }
  \<close>
  The result is a string, or \<^verbatim>\<open>undefined\<close> where \<^verbatim>\<open>JSON.stringify\<close> returns that.
\<close>

definition toString :: "runtime \<Rightarrow> jsval \<Rightarrow> error + jsdata" where
  "toString rt v =
     (case v of
        Plain (JStr s) \<Rightarrow> Inr (JStr s)
      | Plain (JNum n) \<Rightarrow> Inr (JStr (Number_toString rt n))
      | _ \<Rightarrow>
          try_catch
            (case JSON_stringify rt v of
               Inl e \<Rightarrow> Inl e
             | Inr None \<Rightarrow> Inr JUndefined
             | Inr (Some s) \<Rightarrow> Inr (JStr s))
            (\<lambda>e. case String_coerce rt v of Inl e' \<Rightarrow> Inl e' | Inr s \<Rightarrow> Inr (JStr s)))"

text \<open>\<^verbatim>\<open>AOProcess.obj2tags\<close>: \<^verbatim>\<open>Object.entries(obj).map(([key, value]) => ({name: key,
  value: this.toString(value)}))\<close>. The first entry whose conversion throws aborts the map.\<close>

fun obj2tags :: "runtime \<Rightarrow> (string \<times> jsval) list \<Rightarrow> error + jsdata AOMessageTag list" where
  "obj2tags rt [] = Inr []"
| "obj2tags rt ((k, v) # rest) =
     (case toString rt v of
        Inl e \<Rightarrow> Inl e
      | Inr s \<Rightarrow>
          (case obj2tags rt rest of
             Inl e \<Rightarrow> Inl e
           | Inr ts \<Rightarrow> Inr (\<lparr>name = k, value = s\<rparr> # ts)))"

text \<open>
  \<^verbatim>\<open>acc[tag.name] = tag.value\<close> on an object that started as \<^verbatim>\<open>{}\<close>. The key
  \<^verbatim>\<open>__proto__\<close> is special: the assignment runs the setter inherited from
  \<^verbatim>\<open>Object.prototype\<close>, which creates no own property (and ignores a value that is
  not an object).
\<close>

definition assign :: "(string \<rightharpoonup> 'v) \<Rightarrow> string \<Rightarrow> 'v \<Rightarrow> (string \<rightharpoonup> 'v)" where
  "assign acc k v = (if k = ''__proto__'' then acc else acc(k \<mapsto> v))"

text \<open>The reducer both decoders use:
  \<^verbatim>\<open>Tags.reduce((acc, tag) => { acc[tag.name] = tag.value; return acc; }, {})\<close>.\<close>

definition reduce_tags :: "'v AOMessageTag list \<Rightarrow> (string \<rightharpoonup> 'v)" where
  "reduce_tags ts = foldl (\<lambda>acc tag. assign acc (name tag) (value tag)) Map.empty ts"

text \<open>\<^verbatim>\<open>AOProcess.getTagsFromMessage\<close>:
  \<^verbatim>\<open>message?.Messages?.[index]?.Tags?.reduce(...)\<close>; \<^verbatim>\<open>undefined\<close> is \<open>None\<close>.\<close>

definition getTagsFromMessage :: "MessageResult option \<Rightarrow> int \<Rightarrow> (string \<rightharpoonup> string) option" where
  "getTagsFromMessage message index =
     (case message of
        None \<Rightarrow> None
      | Some m \<Rightarrow>
          (case Messages m of
             None \<Rightarrow> None
           | Some ms \<Rightarrow>
               (case at_index ms index of
                  None \<Rightarrow> None
                | Some x \<Rightarrow> (case Tags x of None \<Rightarrow> None | Some ts \<Rightarrow> Some (reduce_tags ts)))))"

text \<open>\<^verbatim>\<open>message?.Messages?.[index]?.Data\<close>.\<close>

definition selected_data :: "MessageResult option \<Rightarrow> int \<Rightarrow> string option" where
  "selected_data message index =
     (case message of
        None \<Rightarrow> None
      | Some m \<Rightarrow>
          (case Messages m of
             None \<Rightarrow> None
           | Some ms \<Rightarrow> (case at_index ms index of None \<Rightarrow> None | Some x \<Rightarrow> Data x)))"

text \<open>\<^verbatim>\<open>JSON.parse(data)\<close> first converts its argument to a string, so an
  \<^verbatim>\<open>undefined\<close> argument is parsed as the text \<^verbatim>\<open>undefined\<close>.\<close>

definition json_parse_data :: "runtime \<Rightarrow> string option \<Rightarrow> error + jsdata" where
  "json_parse_data rt d = JSON_parse rt (case d of None \<Rightarrow> ''undefined'' | Some s \<Rightarrow> s)"

definition raw_data :: "string option \<Rightarrow> jsdata" where
  "raw_data d = (case d of None \<Rightarrow> JUndefined | Some s \<Rightarrow> JStr s)"

text \<open>
  \<^verbatim>\<open>AOProcess.getDataFromMessage\<close>:
  \<^verbatim>\<open>
  const data = message?.Messages?.[index]?.Data;
  try { return JSON.parse(data) as T; } catch { return data as unknown as T; }
  \<close>
\<close>

definition getDataFromMessage :: "runtime \<Rightarrow> MessageResult option \<Rightarrow> int \<Rightarrow> error + jsdata" where
  "getDataFromMessage rt message index =
     (let data = selected_data message index
      in try_catch (json_parse_data rt data) (\<lambda>e. Inr (raw_data data)))"

text \<open>
  \<^verbatim>\<open>extractMessage\<close> of hb.ts:
  \<^verbatim>\<open>
  if (!msg || !msg.Messages) throw new Error("Invalid message format");
  if (idx < 0 || idx >= msg.Messages.length) throw new Error("Index out of bounds");
  const data = msg.Messages[idx];
  return { tags: (data.Tags as AOMessageTag[]).reduce(...), data: data.Data };
  \<close>
  The result object is the pair of its two fields. A message without \<open>Tags\<close> makes
  \<^verbatim>\<open>.reduce\<close> a read on \<^verbatim>\<open>undefined\<close>.
\<close>

definition extractMessage ::
  "MessageResult option \<Rightarrow> int \<Rightarrow> error + ((string \<rightharpoonup> string) \<times> string option)" where
  "extractMessage msg idx =
     (case msg of
        None \<Rightarrow> Inl (JsError ''Invalid message format'')
      | Some m \<Rightarrow>
          (case Messages m of
             None \<Rightarrow> Inl (JsError ''Invalid message format'')
           | Some ms \<Rightarrow>
               if idx < 0 \<or> idx \<ge> int (length ms) then Inl (JsError ''Index out of bounds'')
               else
                 (case Tags (ms ! nat idx) of
                    None \<Rightarrow> Inl (JsTypeError ''Cannot read properties of undefined (reading reduce)'')
                  | Some ts \<Rightarrow> Inr (reduce_tags ts, Data (ms ! nat idx)))))"

text \<open>The composition the round-trip property is about: encode, then decode.\<close>

definition decode_encode :: "runtime \<Rightarrow> (string \<times> jsval) list \<Rightarrow> error + (string \<rightharpoonup> jsdata)" where
  "decode_encode rt m = (case obj2tags rt m of Inl e \<Rightarrow> Inl e | Inr ts \<Rightarrow> Inr (reduce_tags ts))"

section \<open>Effects: a trace of observable events, thrown errors, process exit\<close>

datatype level = Debug | Info | Warn | Err

text \<open>\<^verbatim>\<open>type MessageInput = { process; data?; tags?; anchor?; Id?; Owner? }\<close>; the program
  never sets \<^verbatim>\<open>anchor\<close> or \<^verbatim>\<open>Id\<close>.\<close>

record MessageInput =
  process :: string
  data :: jsdata
  tags :: "jsdata AOMessageTag list"
  Owner :: "jsval option"

text \<open>
  What the outside world can observe of a run, in order: the calls into aoconnect
  (\<^verbatim>\<open>dryrun\<close>, \<^verbatim>\<open>message\<close>, \<^verbatim>\<open>result\<close>), the calls of hb.ts that reach the HyperBEAM node
  (\<^verbatim>\<open>requestHB(processId, tags, data)\<close>, \<^verbatim>\<open>getHBCache(processId, cacheKey)\<close>), the
  inference request (\<^verbatim>\<open>axios.get\<close> on the fixed path, with its query parameters and its
  timeout in milliseconds), log lines (level and message), \<^verbatim>\<open>setTimeout\<close> waits (in
  milliseconds) and \<^verbatim>\<open>process.exit\<close>.
\<close>

datatype event =
    Dryrun MessageInput
  | Message MessageInput
  | FetchResult string string
  | RequestHB string "(string \<times> jsdata) list" jsdata
  | GetHBCache string string
  | AxiosGet string "(string \<times> string) list" nat
  | Log level string
  | ConsoleLog string
  | ConsoleError error
  | SetTimeout nat
  | ProcessExit nat

text \<open>How a computation ends: it returns, it throws, or the process exits (which no
  \<^verbatim>\<open>catch\<close> intercepts).\<close>

datatype 'a completion = Returned 'a | Threw error | Exited nat

type_synonym 'a io = "event list \<times> 'a completion"

definition io_return :: "'a \<Rightarrow> 'a io" where
  "io_return x = ([], Returned x)"

definition io_throw :: "error \<Rightarrow> 'a io" where
  "io_throw e = ([], Threw e)"

definition io_bind :: "'a io \<Rightarrow> ('a \<Rightarrow> 'b io) \<Rightarrow> 'b io" where
  "io_bind m f =
     (case snd m of
        Returned x \<Rightarrow> (fst m @ fst (f x), snd (f x))
      | Threw e \<Rightarrow> (fst m, Threw e)
      | Exited c \<Rightarrow> (fst m, Exited c))"

definition io_catch :: "'a io \<Rightarrow> (error \<Rightarrow> 'a io) \<Rightarrow> 'a io" where
  "io_catch m h =
     (case snd m of
        Threw e \<Rightarrow> (fst m @ fst (h e), snd (h e))
      | _ \<Rightarrow> m)"

definition emit :: "event \<Rightarrow> unit io" where
  "emit ev = ([ev], Returned ())"

definition lift :: "error + 'a \<Rightarrow> 'a io" where
  "lift r = (case r of Inl e \<Rightarrow> io_throw e | Inr x \<Rightarrow> io_return x)"

text \<open>An awaited call to the outside: the event, then the answer the world gave
  (a rejected promise is a thrown error).\<close>

definition perform :: "event \<Rightarrow> error + 'a \<Rightarrow> 'a io" where
  "perform ev r = ([ev], case r of Inl e \<Rightarrow> Threw e | Inr x \<Rightarrow> Returned x)"

definition process_exit :: "nat \<Rightarrow> 'a io" where
  "process_exit c = ([ProcessExit c], Exited c)"

text \<open>
  The answers of the outside world during one iteration of the loop: the Pool process
  behind aoconnect and behind the HyperBEAM node, and the inference endpoint.
  \<open>requestHB\<close> and \<open>getHBCache\<close> are the two network functions of hb.ts taken whole
  (request, unwrapping of the response body, rejection on a transport or body error).
\<close>

record world =
  dryrun :: "MessageInput \<Rightarrow> error + MessageResult"
  message :: "MessageInput \<Rightarrow> error + string"
  fetchResult :: "string \<Rightarrow> string \<Rightarrow> error + MessageResult"
  requestHB :: "string \<Rightarrow> (string \<times> jsdata) list \<Rightarrow> jsdata \<Rightarrow> error + MessageResult"
  getHBCache :: "string \<Rightarrow> string \<Rightarrow> error + jsdata"
  axios_get :: "string \<Rightarrow> (string \<times> string) list \<Rightarrow> error + jsdata"

text \<open>The configuration read from the environment at start-up.\<close>

record config =
  POOL_PROCESS_ID :: string
  HYPERBEAM_URL :: string
  POLL_INTERVAL :: nat
  NODE_ID :: string

text \<open>A template literal \<^verbatim>\<open>`${v}`\<close>: a string is itself, anything else is coerced by the
  runtime.\<close>

definition template :: "runtime \<Rightarrow> jsval \<Rightarrow> error + string" where
  "template rt v = (case v of Plain (JStr s) \<Rightarrow> Inr s | _ \<Rightarrow> String_coerce rt v)"

definition val_truthy :: "jsval \<Rightarrow> bool" where
  "val_truthy v = (case v of Plain d \<Rightarrow> js_truthy d | Host h \<Rightarrow> True)"

text \<open>\<^verbatim>\<open>p.substring(0, 50) + (p.length > 50 ? "..." : "")\<close>, the prompt preview of the
  log lines: a \<^verbatim>\<open>TypeError\<close> unless \<open>p\<close> is a string.\<close>

definition preview :: "jsdata \<Rightarrow> error + string" where
  "preview p =
     (case p of
        JStr s \<Rightarrow> Inr (take 50 s @ (if length s > 50 then ''...'' else []))
      | JUndefined \<Rightarrow> Inl (JsTypeError ''Cannot read properties of undefined (reading substring)'')
      | JNull \<Rightarrow> Inl (JsTypeError ''Cannot read properties of null (reading substring)'')
      | _ \<Rightarrow> Inl (JsTypeError ''substring is not a function''))"

section \<open>The Process Client (AOProcess.ts)\<close>

record AOProcess =
  processId :: string
  isDevEnvironment :: bool

text \<open>\<^verbatim>\<open>`${tags.Action ?? ""} ${msgType}`\<close>, the label of the development log lines.\<close>

definition action_label :: "runtime \<Rightarrow> (string \<times> jsval) list \<Rightarrow> string \<Rightarrow> error + string" where
  "action_label rt reqTags msgType =
     (case (case map_of reqTags ''Action'' of
              None \<Rightarrow> Inr []
            | Some (Plain JUndefined) \<Rightarrow> Inr []
            | Some (Plain JNull) \<Rightarrow> Inr []
            | Some a \<Rightarrow> template rt a) of
        Inl e \<Rightarrow> Inl e
      | Inr a \<Rightarrow> Inr (a @ '' '' @ msgType))"

text \<open>\<^verbatim>\<open>logDebugInfo\<close>: one \<^verbatim>\<open>console.log\<close>; the event keeps its first argument.\<close>

definition logDebugInfo :: "runtime \<Rightarrow> (string \<times> jsval) list \<Rightarrow> string \<Rightarrow> unit io" where
  "logDebugInfo rt reqTags msgType =
     io_bind (lift (action_label rt reqTags msgType)) (\<lambda>l. emit (ConsoleLog l))"

definition logError :: "runtime \<Rightarrow> (string \<times> jsval) list \<Rightarrow> string \<Rightarrow> unit io" where
  "logError rt reqTags msgType =
     io_bind (lift (action_label rt reqTags msgType)) (\<lambda>l. emit (ConsoleLog (l @ '' failed'')))"

text \<open>\<^verbatim>\<open>new Error(x)\<close> for \<open>x\<close> as \<open>toString\<close> returns it: the message is the string, and
  empty for \<^verbatim>\<open>undefined\<close>.\<close>

definition new_Error :: "jsdata \<Rightarrow> error" where
  "new_Error x = (case x of JStr s \<Rightarrow> JsError s | _ \<Rightarrow> JsError [])"

text \<open>
  \<^verbatim>\<open>AOProcess.handleResult\<close>:
  \<^verbatim>\<open>
  const msgErr = result.Error;
  if (msgErr) { throw new Error(this.toString(msgErr)); }
  const resultTags = this.getTagsFromMessage(result);
  if (checkStatus && resultTags && "Status" in resultTags && resultTags.Status !== "200") {
    throw new Error(`${resultTags.Status} ${this.getDataFromMessage(result)}`);
  }
  if (this.isDevEnvironment) { this.logDebugInfo(tags, msgType, data, result); }
  \<close>
\<close>

definition handleResult ::
  "runtime \<Rightarrow> AOProcess \<Rightarrow> string \<Rightarrow> MessageResult \<Rightarrow> (string \<times> jsval) list \<Rightarrow> jsval \<Rightarrow> bool \<Rightarrow> unit io" where
  "handleResult rt this msgType result reqTags reqData checkStatus =
     (let msgErr = Error result in
      if js_truthy msgErr then
        io_bind (lift (toString rt (Plain msgErr))) (\<lambda>m. io_throw (new_Error m))
      else
        (let resultTags = getTagsFromMessage (Some result) 0 in
         case (if checkStatus
               then (case resultTags of None \<Rightarrow> None | Some t \<Rightarrow> t ''Status'')
               else None) of
           Some status \<Rightarrow>
             if status \<noteq> ''200'' then
               io_bind (lift (getDataFromMessage rt (Some result) 0)) (\<lambda>d.
               io_bind (lift (template rt (Plain d))) (\<lambda>ds.
               io_throw (JsError (status @ '' '' @ ds))))
             else if isDevEnvironment this then logDebugInfo rt reqTags msgType
             else io_return ()
         | None \<Rightarrow>
             if isDevEnvironment this then logDebugInfo rt reqTags msgType
             else io_return ()))"

text \<open>
  The envelope of \<^verbatim>\<open>execute\<close>:
  \<^verbatim>\<open>
  const options: MessageInput = { process: this.processId, tags: this.obj2tags(tags),
                                  data: this.toString(data) };
  if (tags.Owner) { options.Owner = tags.Owner; }
  \<close>
\<close>

definition envelope :: "runtime \<Rightarrow> AOProcess \<Rightarrow> (string \<times> jsval) list \<Rightarrow> jsval \<Rightarrow> error + MessageInput" where
  "envelope rt this reqTags reqData =
     (case obj2tags rt reqTags of
        Inl e \<Rightarrow> Inl e
      | Inr ts \<Rightarrow>
          (case toString rt reqData of
             Inl e \<Rightarrow> Inl e
           | Inr d \<Rightarrow>
               Inr \<lparr>process = processId this, data = d, tags = ts,
                    Owner = (case map_of reqTags ''Owner'' of
                               None \<Rightarrow> None
                             | Some ow \<Rightarrow> if val_truthy ow then Some ow else None)\<rparr>))"

text \<open>
  The round trip of \<^verbatim>\<open>execute\<close>: a dry run, or a signed message whose result is then
  fetched:
  \<^verbatim>\<open>
  if (msgType === "dryrun") { msgResult = await dryrun(options); }
  else { const messageId = await message({ ...options, signer });
         msgResult = await fetchResult({ message: messageId, process: this.processId }); }
  \<close>
\<close>

definition send :: "world \<Rightarrow> AOProcess \<Rightarrow> string \<Rightarrow> MessageInput \<Rightarrow> MessageResult io" where
  "send w this msgType options =
     (if msgType = ''dryrun'' then perform (Dryrun options) (dryrun w options)
      else
        io_bind (perform (Message options) (message w options)) (\<lambda>messageId.
        perform (FetchResult messageId (processId this))
                (fetchResult w messageId (processId this))))"

text \<open>
  \<^verbatim>\<open>AOProcess.execute\<close>: build the envelope, make the round trip, check the result and
  return it; on any error, log it in development and rethrow:
  \<^verbatim>\<open>
  try { ...; this.handleResult(msgType, msgResult, tags, data, checkStatus);
        if (this.isDevEnvironment) { console.log(`AO ${msgType} completed in ...`, ...); }
        return msgResult;
  } catch (e) { if (this.isDevEnvironment) { this.logError(tags, msgType); console.error(e); }
                throw e; }
  \<close>
\<close>

definition execute ::
  "runtime \<Rightarrow> world \<Rightarrow> AOProcess \<Rightarrow> string \<Rightarrow> (string \<times> jsval) list \<Rightarrow> jsval \<Rightarrow> bool \<Rightarrow> MessageResult io" where
  "execute rt w this msgType reqTags reqData checkStatus =
     io_catch
       (io_bind (lift (envelope rt this reqTags reqData)) (\<lambda>options.
        io_bind (send w this msgType options) (\<lambda>msgResult.
        io_bind (handleResult rt this msgType msgResult reqTags reqData checkStatus) (\<lambda>_.
        io_bind (if isDevEnvironment this
                 then emit (ConsoleLog (''AO '' @ msgType @ '' completed''))
                 else io_return ()) (\<lambda>_.
        io_return msgResult)))))
       (\<lambda>e.
        io_bind (if isDevEnvironment this
                 then io_bind (logError rt reqTags msgType) (\<lambda>_. emit (ConsoleError e))
                 else io_return ()) (\<lambda>_.
        io_throw e))"

text \<open>\<^verbatim>\<open>sendMessage(tags, data = null, checkStatus = true)\<close> and
  \<^verbatim>\<open>dryRun(tags, data = null, checkStatus = true)\<close>.\<close>

definition sendMessage ::
  "runtime \<Rightarrow> world \<Rightarrow> AOProcess \<Rightarrow> (string \<times> jsval) list \<Rightarrow> jsval \<Rightarrow> bool \<Rightarrow> MessageResult io" where
  "sendMessage rt w this reqTags reqData checkStatus =
     execute rt w this ''message'' reqTags reqData checkStatus"

definition dryRun ::
  "runtime \<Rightarrow> world \<Rightarrow> AOProcess \<Rightarrow> (string \<times> jsval) list \<Rightarrow> jsval \<Rightarrow> bool \<Rightarrow> MessageResult io" where
  "dryRun rt w this reqTags reqData checkStatus =
     execute rt w this ''dryrun'' reqTags reqData checkStatus"

section \<open>The inference client\<close>

definition inference_url :: "config \<Rightarrow> string" where
  "inference_url cfg = HYPERBEAM_URL cfg @ ''/~wasi-nn@1.0/run_inference_http''"

text \<open>
  \<^verbatim>\<open>runHyperBeamInference(prompt, config)\<close> of src/index.ts. \<^verbatim>\<open>queryParams.append\<close> coerces
  its value to a string; the prompt preview is computed for the log line; the request
  carries a timeout of 120000 ms; every error is logged and rethrown as
  \<^verbatim>\<open>new Error(`HyperBEAM inference failed: ${error.message}`)\<close>.
\<close>

definition runHyperBeamInference :: "runtime \<Rightarrow> world \<Rightarrow> config \<Rightarrow> jsdata \<Rightarrow> jsdata \<Rightarrow> jsdata io" where
  "runHyperBeamInference rt w cfg prompt conf =
     io_catch
       (io_bind (lift (template rt (Plain prompt))) (\<lambda>p.
        io_bind (if js_truthy conf
                 then io_bind (lift (template rt (Plain conf))) (\<lambda>c.
                      io_return [(''prompt'', p), (''config'', c)])
                 else io_return [(''prompt'', p)]) (\<lambda>queryParams.
        io_bind (lift (preview prompt)) (\<lambda>_.
        io_bind (emit (Log Info ''Sending inference request to HyperBEAM'')) (\<lambda>_.
        perform (AxiosGet (inference_url cfg) queryParams 120000)
                (axios_get w (inference_url cfg) queryParams))))))
       (\<lambda>error.
        io_bind (emit (Log Err ''HyperBEAM inference failed'')) (\<lambda>_.
        io_throw (JsError (''HyperBEAM inference failed: '' @ error_message error))))"

text \<open>The same function in the AOProcess-based entry point: it differs in one line,
  \<^verbatim>\<open>queryParams.append("config", JSON.stringify(config))\<close>.\<close>

definition runHyperBeamInference_ao :: "runtime \<Rightarrow> world \<Rightarrow> config \<Rightarrow> jsdata \<Rightarrow> jsdata \<Rightarrow> jsdata io" where
  "runHyperBeamInference_ao rt w cfg prompt conf =
     io_catch
       (io_bind (lift (template rt (Plain prompt))) (\<lambda>p.
        io_bind (if js_truthy conf
                 then io_bind (lift (JSON_stringify rt (Plain conf))) (\<lambda>c.
                      io_return [(''prompt'', p),
                                 (''config'', case c of None \<Rightarrow> ''undefined'' | Some t \<Rightarrow> t)])
                 else io_return [(''prompt'', p)]) (\<lambda>queryParams.
        io_bind (lift (preview prompt)) (\<lambda>_.
        io_bind (emit (Log Info ''Sending inference request to HyperBEAM'')) (\<lambda>_.
        perform (AxiosGet (inference_url cfg) queryParams 120000)
                (axios_get w (inference_url cfg) queryParams))))))
       (\<lambda>error.
        io_bind (emit (Log Err ''HyperBEAM inference failed'')) (\<lambda>_.
        io_throw (JsError (''HyperBEAM inference failed: '' @ error_message error))))"

section \<open>The HyperBEAM-based poller (src/index.ts with utils/request.ts)\<close>

text \<open>\<^verbatim>\<open>const PoolProcess = process.env.POOL_PROCESS_ID || "Zvk3..."\<close> of request.ts.\<close>

definition PoolProcess :: "config \<Rightarrow> string" where
  "PoolProcess cfg =
     (if POOL_PROCESS_ID cfg = [] then ''Zvk33TZcp2maje5ewY4tm4TN1479ncUaTmmqHihXwUA''
      else POOL_PROCESS_ID cfg)"

text \<open>\<^verbatim>\<open>getHBCache<string>(PoolProcess, "pending_taskcount").then(res => Number(res) > 0)\<close>\<close>

definition hasPendingTask :: "runtime \<Rightarrow> world \<Rightarrow> config \<Rightarrow> bool io" where
  "hasPendingTask rt w cfg =
     io_bind (perform (GetHBCache (PoolProcess cfg) ''pending_taskcount'')
                      (getHBCache w (PoolProcess cfg) ''pending_taskcount'')) (\<lambda>res.
     io_return (Number_positive rt res))"

text \<open>\<^verbatim>\<open>tags.Error || data || "Unknown error"\<close>\<close>

definition failure_text :: "(string \<rightharpoonup> string) \<Rightarrow> string option \<Rightarrow> string" where
  "failure_text tgs dat =
     (case tgs ''Error'' of
        Some (c # cs) \<Rightarrow> c # cs
      | _ \<Rightarrow> (case dat of Some (c # cs) \<Rightarrow> c # cs | _ \<Rightarrow> ''Unknown error''))"

text \<open>
  \<^verbatim>\<open>receiveTask(nodeID)\<close> of request.ts:
  \<^verbatim>\<open>
  return requestHB<MessageResult>(PoolProcess, { Action: "Get-Pending-Task", Nodeid: nodeID })
    .then(msg => {
      if (msg.Error) { throw new Error(msg.Error); }
      const { tags, data } = extractMessage(msg, 0);
      if (tags.Code === "200") { return msg.Messages; }
      else if (tags.Code === "403") {
        return msg.Error("Oracle not authorized. Make sure this Node ID is registered in the Pool");
        process.exit(1);
      } else if (tags.Code === "204") { throw new Error("No pending tasks available"); }
      else { throw new Error(tags.Error || data || "Unknown error"); }
    }).then(messages => { return JSON.parse(messages[0].Data) })
  \<close>
  In the \<^verbatim>\<open>403\<close> branch \<^verbatim>\<open>msg.Error\<close> is falsy (the first line threw otherwise), so calling it
  throws a \<^verbatim>\<open>TypeError\<close>; the \<^verbatim>\<open>process.exit(1)\<close> that follows the \<^verbatim>\<open>return\<close> is never
  reached. After a successful \<open>extractMessage msg 0\<close> the list \<^verbatim>\<open>messages\<close> has a first
  element.
\<close>

definition receiveTask :: "runtime \<Rightarrow> world \<Rightarrow> config \<Rightarrow> string \<Rightarrow> jsdata io" where
  "receiveTask rt w cfg nodeID =
     io_bind (perform (RequestHB (PoolProcess cfg)
                         [(''Action'', JStr ''Get-Pending-Task''), (''Nodeid'', JStr nodeID)] JUndefined)
                      (requestHB w (PoolProcess cfg)
                         [(''Action'', JStr ''Get-Pending-Task''), (''Nodeid'', JStr nodeID)] JUndefined)) (\<lambda>msg.
     io_bind
       (if js_truthy (Error msg) then
          io_bind (lift (template rt (Plain (Error msg)))) (\<lambda>m. io_throw (JsError m))
        else
          io_bind (lift (extractMessage (Some msg) 0)) (\<lambda>(tgs, dat).
          if tgs ''Code'' = Some ''200'' then io_return (Messages msg)
          else if tgs ''Code'' = Some ''403'' then io_throw (JsTypeError ''msg.Error is not a function'')
          else if tgs ''Code'' = Some ''204'' then io_throw (JsError ''No pending tasks available'')
          else io_throw (JsError (failure_text tgs dat)))) (\<lambda>messages.
     case messages of
       Some (m # ms) \<Rightarrow> lift (json_parse_data rt (Data m))
     | _ \<Rightarrow> io_throw (JsTypeError ''Cannot read properties of undefined (reading Data)'')))"

text \<open>\<^verbatim>\<open>sendTaskResponse(nodeID, ref, output)\<close>: \<^verbatim>\<open>requestHB(PoolProcess, { Action:
  "Task-Response", "X-Oracle-Node-Id": nodeID, "X-Reference": ref }, { output })\<close>\<close>

definition sendTaskResponse :: "world \<Rightarrow> config \<Rightarrow> string \<Rightarrow> jsdata \<Rightarrow> jsdata \<Rightarrow> MessageResult io" where
  "sendTaskResponse w cfg nodeID ref output =
     perform (RequestHB (PoolProcess cfg)
                [(''Action'', JStr ''Task-Response''), (''X-Oracle-Node-Id'', JStr nodeID),
                 (''X-Reference'', ref)]
                (JObj [(''output'', output)]))
             (requestHB w (PoolProcess cfg)
                [(''Action'', JStr ''Task-Response''), (''X-Oracle-Node-Id'', JStr nodeID),
                 (''X-Reference'', ref)]
                (JObj [(''output'', output)]))"

text \<open>\<^verbatim>\<open>JSON.stringify({ n_gpu_layers: 48, ctx_size: 20480 })\<close>, the configuration used when
  the task carries none.\<close>

definition default_config :: "runtime \<Rightarrow> error + jsdata" where
  "default_config rt =
     (case JSON_stringify rt (Plain (JObj [(''n_gpu_layers'', JNum 48), (''ctx_size'', JNum 20480)])) of
        Inl e \<Rightarrow> Inl e
      | Inr None \<Rightarrow> Inr JUndefined
      | Inr (Some s) \<Rightarrow> Inr (JStr s))"

text \<open>
  One pass through the body of \<^verbatim>\<open>while (true) { try { ... } catch (error) { ... } }\<close> in
  \<^verbatim>\<open>main\<close> of src/index.ts. The \<^verbatim>\<open>continue\<close> after the first wait ends the pass. The text
  \<^verbatim>\<open>${task.ref}\<close> is computed once here and reused by the later log lines (the coercion
  is a function of the value).
\<close>

definition main_iteration :: "runtime \<Rightarrow> config \<Rightarrow> world \<Rightarrow> unit io" where
  "main_iteration rt cfg w =
     io_catch
       (io_bind (emit (Log Debug ''Requesting pending task from Pool...'')) (\<lambda>_.
        io_bind (hasPendingTask rt w cfg) (\<lambda>has.
        if \<not> has then
          io_bind (emit (Log Info ''No pending tasks available, Skipping...'')) (\<lambda>_.
          emit (SetTimeout (POLL_INTERVAL cfg)))
        else
          io_bind (receiveTask rt w cfg (NODE_ID cfg)) (\<lambda>task.
          io_bind (lift (js_get task ''ref'')) (\<lambda>ref.
          io_bind (lift (template rt (Plain ref))) (\<lambda>refText.
          io_bind (lift (js_get task ''prompt'')) (\<lambda>prompt.
          io_bind (lift (preview prompt)) (\<lambda>_.
          io_bind (emit (Log Info (''Received task '' @ refText))) (\<lambda>_.
          io_bind (emit (Log Info (''Processing task '' @ refText @ '' with HyperBEAM''))) (\<lambda>_.
          io_bind (lift (js_get task ''config'')) (\<lambda>c.
          io_bind (if js_truthy c then io_return c else lift (default_config rt)) (\<lambda>conf.
          io_bind (runHyperBeamInference rt w cfg prompt conf) (\<lambda>output.
          io_bind (emit (Log Info (''Task '' @ refText @ '' completed, sending response...''))) (\<lambda>_.
          io_bind (sendTaskResponse w cfg (NODE_ID cfg) ref output) (\<lambda>_.
          io_bind (emit (Log Info (''Task '' @ refText @ '' response sent successfully''))) (\<lambda>_.
          emit (SetTimeout (POLL_INTERVAL cfg))))))))))))))))))
       (\<lambda>error.
        io_bind (emit (Log Err ''Error in main loop'')) (\<lambda>_.
        emit (SetTimeout (POLL_INTERVAL cfg))))"

text \<open>
  The unbounded loop, run against the answers of the world for its first passes (one
  \<open>world\<close> per pass): the trace so far, and \<open>Returned\<close> when the loop is still running
  after them. A process exit ends the run at once.
\<close>

fun main_loop :: "(world \<Rightarrow> unit io) \<Rightarrow> world list \<Rightarrow> unit io" where
  "main_loop body [] = io_return ()"
| "main_loop body (w # ws) = io_bind (body w) (\<lambda>_. main_loop body ws)"

text \<open>\<^verbatim>\<open>main()\<close> with its guard on \<^verbatim>\<open>POOL_PROCESS_ID\<close>, and the
  \<^verbatim>\<open>main().catch(...)\<close> around it.\<close>

definition main :: "runtime \<Rightarrow> config \<Rightarrow> world list \<Rightarrow> unit io" where
  "main rt cfg ws =
     io_catch
       (if POOL_PROCESS_ID cfg = [] then
          io_bind (emit (Log Err ''POOL_PROCESS_ID environment variable is not set'')) (\<lambda>_.
          process_exit 1)
        else
          io_bind (emit (Log Info ''Starting ANPM Oracle'')) (\<lambda>_.
          main_loop (main_iteration rt cfg) ws))
       (\<lambda>error. io_bind (emit (Log Err ''Fatal error:'')) (\<lambda>_. process_exit 1))"

section \<open>The AOProcess-based poller\<close>

text \<open>\<^verbatim>\<open>const poolProcess = new AOProcess(POOL_PROCESS_ID, false)\<close>\<close>

definition poolProcess :: "config \<Rightarrow> AOProcess" where
  "poolProcess cfg = \<lparr>processId = POOL_PROCESS_ID cfg, isDevEnvironment = False\<rparr>"

text \<open>\<^verbatim>\<open>poolProcess.getTagsFromMessage(result) || {}\<close>\<close>

definition tags_or_empty :: "MessageResult \<Rightarrow> (string \<rightharpoonup> string)" where
  "tags_or_empty r = (case getTagsFromMessage (Some r) 0 of None \<Rightarrow> Map.empty | Some t \<Rightarrow> t)"

text \<open>The branch of the loop body taken on \<^verbatim>\<open>Code === "200"\<close>: decode the task, infer,
  submit.\<close>

definition process_task :: "runtime \<Rightarrow> config \<Rightarrow> world \<Rightarrow> MessageResult \<Rightarrow> unit io" where
  "process_task rt cfg w result =
     io_bind (lift (getDataFromMessage rt (Some result) 0)) (\<lambda>taskData.
     if js_truthy taskData then
       io_bind (lift (js_get taskData ''ref'')) (\<lambda>ref.
       io_bind (lift (template rt (Plain ref))) (\<lambda>refText.
       io_bind (lift (js_get taskData ''prompt'')) (\<lambda>prompt.
       io_bind (lift (preview prompt)) (\<lambda>_.
       io_bind (emit (Log Info (''Received task '' @ refText))) (\<lambda>_.
       io_bind (emit (Log Info (''Processing task '' @ refText @ '' with HyperBEAM''))) (\<lambda>_.
       io_bind (lift (js_get taskData ''config'')) (\<lambda>conf.
       io_bind (runHyperBeamInference_ao rt w cfg prompt conf) (\<lambda>output.
       io_bind (emit (Log Info (''Task '' @ refText @ '' completed, sending response...''))) (\<lambda>_.
       io_bind (sendMessage rt w (poolProcess cfg)
                  [(''Action'', Plain (JStr ''Task-Response'')),
                   (''X-Oracle-Node-Id'', Plain (JStr (NODE_ID cfg))),
                   (''X-Reference'', Plain ref)]
                  (Plain (JObj [(''output'', output)])) True) (\<lambda>_.
       emit (Log Info (''Task '' @ refText @ '' response sent successfully''))))))))))))
     else io_return ())"

text \<open>
  One pass through the loop body of the AOProcess-based \<^verbatim>\<open>main\<close>: a dry run of
  \<^verbatim>\<open>Has-Pending-Task\<close>, then \<^verbatim>\<open>Get-Pending-Task\<close> as a message, then the dispatch on the
  \<^verbatim>\<open>Code\<close> tag of the answer.
\<close>

definition main_iteration_ao :: "runtime \<Rightarrow> config \<Rightarrow> world \<Rightarrow> unit io" where
  "main_iteration_ao rt cfg w =
     io_catch
       (io_bind (emit (Log Debug ''Requesting pending task from Pool...'')) (\<lambda>_.
        io_bind (dryRun rt w (poolProcess cfg)
                   [(''Action'', Plain (JStr ''Has-Pending-Task''))] (Plain JNull) True) (\<lambda>hasPendingTaskResult.
        if tags_or_empty hasPendingTaskResult ''Code'' = Some ''204'' then
          io_bind (emit (Log Info ''No pending tasks available, Skipping...'')) (\<lambda>_.
          emit (SetTimeout (POLL_INTERVAL cfg)))
        else
          io_bind (sendMessage rt w (poolProcess cfg)
                     [(''Action'', Plain (JStr ''Get-Pending-Task'')),
                      (''NodeID'', Plain (JStr (NODE_ID cfg)))] (Plain JNull) True) (\<lambda>result.
          io_bind
            (if tags_or_empty result ''Code'' = Some ''200'' then process_task rt cfg w result
             else if tags_or_empty result ''Code'' = Some ''204'' then
               emit (Log Info ''No pending tasks available'')
             else if tags_or_empty result ''Code'' = Some ''403'' then
               io_bind (emit (Log Err ''Oracle not authorized. Make sure this Node ID is registered in the Pool'')) (\<lambda>_.
               process_exit 1)
             else emit (Log Warn ''Unexpected response from Pool'')) (\<lambda>_.
          emit (SetTimeout (POLL_INTERVAL cfg)))))))
       (\<lambda>error.
        io_bind (emit (Log Err ''Error in main loop'')) (\<lambda>_.
        emit (SetTimeout (POLL_INTERVAL cfg))))"

definition main_ao :: "runtime \<Rightarrow> config \<Rightarrow> world list \<Rightarrow> unit io" where
  "main_ao rt cfg ws =
     io_catch
       (if POOL_PROCESS_ID cfg = [] then
          io_bind (emit (Log Err ''POOL_PROCESS_ID environment variable is not set'')) (\<lambda>_.
          process_exit 1)
        else
          io_bind (emit (Log Info ''Starting ANPM Oracle'')) (\<lambda>_.
          main_loop (main_iteration_ao rt cfg) ws))
       (\<lambda>error. io_bind (emit (Log Err ''Fatal error:'')) (\<lambda>_. process_exit 1))"

section \<open>Observations on a trace\<close>

text \<open>The durations of the \<^verbatim>\<open>setTimeout\<close> waits of a trace, in order.\<close>

fun waits :: "event list \<Rightarrow> nat list" where
  "waits [] = []"
| "waits (SetTimeout d # es) = d # waits es"
| "waits (e # es) = waits es"

text \<open>Predicates used in the proofs about the loop: a computation that neither waits nor
  exits; one that does not wait and exits with code 1 if it exits; one that never exits;
  and a loop body that waits once, last, for \<open>p\<close> milliseconds when it returns.\<close>

definition quiet :: "'a io \<Rightarrow> bool" where
  "quiet m = (waits (fst m) = [] \<and> (\<forall>c. snd m \<noteq> Exited c))"

definition silent :: "'a io \<Rightarrow> bool" where
  "silent m = (waits (fst m) = [] \<and> (\<forall>c. snd m = Exited c \<longrightarrow> c = 1))"

definition no_exit :: "'a io \<Rightarrow> bool" where
  "no_exit m = (\<forall>c. snd m \<noteq> Exited c)"

definition paced :: "nat \<Rightarrow> unit io \<Rightarrow> bool" where
  "paced p m =
     (case snd m of
        Returned u \<Rightarrow> waits (fst m) = [p] \<and> fst m \<noteq> [] \<and> last (fst m) = SetTimeout p
      | Threw e \<Rightarrow> waits (fst m) = []
      | Exited c \<Rightarrow> waits (fst m) = [] \<and> c = 1)"

section \<open>A reference runtime and a scripted world, for concrete runs\<close>

text \<open>
  The theorems below hold for every runtime. To run the model on concrete inputs, this
  section gives one runtime, \<open>node_rt\<close>, that computes what Node.js computes on a
  fragment of its inputs: integers; JSON text without escape sequences, fractions and
  exponents; strings without control characters, quotes aside. Two host objects stand
  for the two kinds of circular structure: \<open>Host 0\<close> is an ordinary object that
  refers to itself (\<^verbatim>\<open>const o = {}; o.self = o\<close>), every other handle an object without
  prototype that refers to itself (\<^verbatim>\<open>const o = Object.create(null); o.self = o\<close>).
  \<^verbatim>\<open>JSON.stringify\<close> throws a \<^verbatim>\<open>TypeError\<close> on both; \<^verbatim>\<open>String\<close> gives
  \<^verbatim>\<open>[object Object]\<close> for the first and throws a \<^verbatim>\<open>TypeError\<close> for the second, which
  inherits no \<^verbatim>\<open>toString\<close>.
\<close>

definition digit_char :: "int \<Rightarrow> char" where
  "digit_char d = char_of (48 + d)"

function show_digits :: "int \<Rightarrow> string" where
  "show_digits i = (if i < 10 then [digit_char i] else show_digits (i div 10) @ [digit_char (i mod 10)])"
  by pat_completeness auto
termination
  by (relation "measure nat") auto

definition show_int :: "int \<Rightarrow> string" where
  "show_int i = (if i < 0 then CHR ''-'' # show_digits (- i) else show_digits i)"

definition is_ws :: "char \<Rightarrow> bool" where
  "is_ws c = (c = CHR '' '' \<or> c = CHR 0x09 \<or> c = CHR 0x0A \<or> c = CHR 0x0D)"

definition is_digit :: "char \<Rightarrow> bool" where
  "is_digit c = (48 \<le> (of_char c :: int) \<and> (of_char c :: int) \<le> 57)"

definition is_letter :: "char \<Rightarrow> bool" where
  "is_letter c = (97 \<le> (of_char c :: int) \<and> (of_char c :: int) \<le> 122)"

fun digits_value :: "int \<Rightarrow> string \<Rightarrow> int" where
  "digits_value acc [] = acc"
| "digits_value acc (c # cs) = digits_value (10 * acc + (of_char c - 48)) cs"

text \<open>The tokens of a JSON text: punctuation, a scalar value, or a malformed piece.\<close>

datatype token =
    TLBrace | TRBrace | TLBrack | TRBrack | TColon | TComma
  | TValue jsdata
  | TBad

definition number_token :: "string \<Rightarrow> token" where
  "number_token s =
     (let neg = (s \<noteq> [] \<and> hd s = CHR ''-'');
          ds = (if neg then tl s else s)
      in if ds = [] \<or> \<not> list_all is_digit ds \<or> (length ds > 1 \<and> hd ds = CHR ''0'') then TBad
         else TValue (JNum (if neg then - digits_value 0 ds else digits_value 0 ds)))"

definition word_token :: "string \<Rightarrow> token" where
  "word_token s =
     (if s = ''true'' then TValue (JBool True)
      else if s = ''false'' then TValue (JBool False)
      else if s = ''null'' then TValue JNull
      else TBad)"

text \<open>The tokenizer reads the text character by character; it is inside a string, a
  number or a word (\<^verbatim>\<open>true\<close>, \<^verbatim>\<open>false\<close>, \<^verbatim>\<open>null\<close>), or between tokens.\<close>

datatype lexmode = Idle | InString string | InNumber string | InWord string

definition idle_step :: "token list \<Rightarrow> char \<Rightarrow> lexmode \<times> token list" where
  "idle_step toks c =
     (if is_ws c then (Idle, toks)
      else if c = CHR ''{'' then (Idle, TLBrace # toks)
      else if c = CHR ''}'' then (Idle, TRBrace # toks)
      else if c = CHR ''['' then (Idle, TLBrack # toks)
      else if c = CHR '']'' then (Idle, TRBrack # toks)
      else if c = CHR '':'' then (Idle, TColon # toks)
      else if c = CHR '','' then (Idle, TComma # toks)
      else if c = CHR 0x22 then (InString [], toks)
      else if c = CHR ''-'' \<or> is_digit c then (InNumber [c], toks)
      else if is_letter c then (InWord [c], toks)
      else (Idle, TBad # toks))"

fun lex_step :: "lexmode \<times> token list \<Rightarrow> char \<Rightarrow> lexmode \<times> token list" where
  "lex_step (Idle, toks) c = idle_step toks c"
| "lex_step (InString acc, toks) c =
     (if c = CHR 0x22 then (Idle, TValue (JStr (rev acc)) # toks)
      else if c = CHR 0x5C \<or> (of_char c :: int) < 32 then (Idle, TBad # toks)
      else (InString (c # acc), toks))"
| "lex_step (InNumber acc, toks) c =
     (if is_digit c \<or> c = CHR ''.'' \<or> c = CHR ''e'' \<or> c = CHR ''E'' \<or> c = CHR ''+'' \<or> c = CHR ''-''
      then (InNumber (c # acc), toks)
      else idle_step (number_token (rev acc) # toks) c)"
| "lex_step (InWord acc, toks) c =
     (if is_letter c then (InWord (c # acc), toks)
      else idle_step (word_token (rev acc) # toks) c)"

fun lex_end :: "lexmode \<times> token list \<Rightarrow> token list" where
  "lex_end (Idle, toks) = rev toks"
| "lex_end (InString acc, toks) = rev (TBad # toks)"
| "lex_end (InNumber acc, toks) = rev (number_token (rev acc) # toks)"
| "lex_end (InWord acc, toks) = rev (word_token (rev acc) # toks)"

definition tokens :: "string \<Rightarrow> token list" where
  "tokens s = lex_end (foldl lex_step (Idle, []) s)"

text \<open>A repeated key keeps its first position and takes the last value.\<close>

fun obj_put :: "string \<Rightarrow> jsdata \<Rightarrow> (string \<times> jsdata) list \<Rightarrow> (string \<times> jsdata) list" where
  "obj_put k v [] = [(k, v)]"
| "obj_put k v ((k', v') # kvs) = (if k' = k then (k, v) # kvs else (k', v') # obj_put k v kvs)"

text \<open>The parser reads the tokens one by one; it keeps the stack of the arrays and
  objects that are still open and what it expects next.\<close>

datatype frame = InArray "jsdata list" | InObject "(string \<times> jsdata) list" "string option"

datatype expect = AValue | AValueOrClose | AKeyOrClose | AKey | AColon | ACommaOrClose | AtEnd jsdata

type_synonym pstate = "(expect \<times> frame list) option"

fun put_value :: "jsdata \<Rightarrow> frame list \<Rightarrow> pstate" where
  "put_value v [] = Some (AtEnd v, [])"
| "put_value v (InArray es # st) = Some (ACommaOrClose, InArray (es @ [v]) # st)"
| "put_value v (InObject ms (Some k) # st) = Some (ACommaOrClose, InObject (obj_put k v ms) None # st)"
| "put_value v (InObject ms None # st) = None"

fun open_value :: "token \<Rightarrow> frame list \<Rightarrow> pstate" where
  "open_value (TValue v) st = put_value v st"
| "open_value TLBrack st = Some (AValueOrClose, InArray [] # st)"
| "open_value TLBrace st = Some (AKeyOrClose, InObject [] None # st)"
| "open_value t st = None"

fun parse_step :: "pstate \<Rightarrow> token \<Rightarrow> pstate" where
  "parse_step None t = None"
| "parse_step (Some (AValue, st)) t = open_value t st"
| "parse_step (Some (AValueOrClose, st)) t =
     (case (t, st) of
        (TRBrack, InArray es # st') \<Rightarrow> put_value (JArr es) st'
      | _ \<Rightarrow> open_value t st)"
| "parse_step (Some (AKeyOrClose, st)) t =
     (case (t, st) of
        (TRBrace, InObject ms None # st') \<Rightarrow> put_value (JObj ms) st'
      | (TValue (JStr k), InObject ms None # st') \<Rightarrow> Some (AColon, InObject ms (Some k) # st')
      | _ \<Rightarrow> None)"
| "parse_step (Some (AKey, st)) t =
     (case (t, st) of
        (TValue (JStr k), InObject ms None # st') \<Rightarrow> Some (AColon, InObject ms (Some k) # st')
      | _ \<Rightarrow> None)"
| "parse_step (Some (AColon, st)) t = (case t of TColon \<Rightarrow> Some (AValue, st) | _ \<Rightarrow> None)"
| "parse_step (Some (ACommaOrClose, st)) t =
     (case (t, st) of
        (TComma, InArray es # st') \<Rightarrow> Some (AValue, st)
      | (TRBrack, InArray es # st') \<Rightarrow> put_value (JArr es) st'
      | (TComma, InObject ms None # st') \<Rightarrow> Some (AKey, st)
      | (TRBrace, InObject ms None # st') \<Rightarrow> put_value (JObj ms) st'
      | _ \<Rightarrow> None)"
| "parse_step (Some (AtEnd v, st)) t = None"

definition json_parse :: "string \<Rightarrow> error + jsdata" where
  "json_parse s =
     (case foldl parse_step (Some (AValue, [])) (tokens s) of
        Some (AtEnd v, []) \<Rightarrow> Inr v
      | _ \<Rightarrow> Inl (JsSyntaxError ''Unexpected token in JSON''))"

fun join :: "string \<Rightarrow> string list \<Rightarrow> string" where
  "join sep [] = []"
| "join sep [x] = x"
| "join sep (x # y # ys) = x @ sep @ join sep (y # ys)"

definition quote :: "string \<Rightarrow> string" where
  "quote s = CHR 0x22 # concat (map (\<lambda>c. if c = CHR 0x22 \<or> c = CHR 0x5C then [CHR 0x5C, c] else [c]) s) @ [CHR 0x22]"

text \<open>\<^verbatim>\<open>JSON.stringify\<close> on plain data: \<^verbatim>\<open>undefined\<close> has no text, becomes \<^verbatim>\<open>null\<close> in an
  array and is left out of an object.\<close>

fun json_text :: "jsdata \<Rightarrow> string option"
  and json_elements :: "jsdata list \<Rightarrow> string list"
  and json_members :: "(string \<times> jsdata) list \<Rightarrow> string list"
where
  "json_text JUndefined = None"
| "json_text JNull = Some ''null''"
| "json_text (JBool b) = Some (if b then ''true'' else ''false'')"
| "json_text (JNum n) = Some (show_int n)"
| "json_text (JStr s) = Some (quote s)"
| "json_text (JArr xs) = Some (''['' @ join '','' (json_elements xs) @ '']'')"
| "json_text (JObj kvs) = Some (''{'' @ join '','' (json_members kvs) @ ''}'')"
| "json_elements [] = []"
| "json_elements (x # xs) = (case json_text x of None \<Rightarrow> ''null'' | Some t \<Rightarrow> t) # json_elements xs"
| "json_members [] = []"
| "json_members ((k, v) # kvs) =
     (case json_text v of None \<Rightarrow> json_members kvs | Some t \<Rightarrow> (quote k @ '':'' @ t) # json_members kvs)"

text \<open>\<^verbatim>\<open>String\<close> on plain data: an array joins its elements with commas
  (\<^verbatim>\<open>undefined\<close> and \<^verbatim>\<open>null\<close> as the empty string); an object gives
  \<^verbatim>\<open>[object Object]\<close>, unless an own property \<^verbatim>\<open>toString\<close> (never a function in plain
  data) hides the inherited method, which is a \<^verbatim>\<open>TypeError\<close> (\<open>None\<close>).\<close>

fun string_of :: "jsdata \<Rightarrow> string option"
  and strings_of :: "jsdata list \<Rightarrow> string list option"
where
  "string_of JUndefined = Some ''undefined''"
| "string_of JNull = Some ''null''"
| "string_of (JBool b) = Some (if b then ''true'' else ''false'')"
| "string_of (JNum n) = Some (show_int n)"
| "string_of (JStr s) = Some s"
| "string_of (JArr xs) = map_option (join '','') (strings_of xs)"
| "string_of (JObj kvs) = (if ''toString'' \<in> fst ` set kvs then None else Some ''[object Object]'')"
| "strings_of [] = Some []"
| "strings_of (x # xs) =
     (case (if x = JUndefined \<or> x = JNull then Some [] else string_of x) of
        None \<Rightarrow> None
      | Some s \<Rightarrow> map_option ((#) s) (strings_of xs))"

definition node_JSON_stringify :: "jsval \<Rightarrow> error + string option" where
  "node_JSON_stringify v =
     (case v of
        Plain d \<Rightarrow> Inr (json_text d)
      | Host h \<Rightarrow> Inl (JsTypeError ''Converting circular structure to JSON''))"

definition node_String :: "jsval \<Rightarrow> error + string" where
  "node_String v =
     (case v of
        Plain d \<Rightarrow>
          (case string_of d of
             None \<Rightarrow> Inl (JsTypeError ''Cannot convert object to primitive value'')
           | Some s \<Rightarrow> Inr s)
      | Host h \<Rightarrow>
          if h = 0 then Inr ''[object Object]''
          else Inl (JsTypeError ''Cannot convert object to primitive value''))"

definition node_Number_positive :: "jsdata \<Rightarrow> bool" where
  "node_Number_positive v =
     (case v of
        JNum n \<Rightarrow> n > 0
      | JBool b \<Rightarrow> b
      | JStr s \<Rightarrow> (case tokens s of [TValue (JNum n)] \<Rightarrow> n > 0 | _ \<Rightarrow> False)
      | _ \<Rightarrow> False)"

definition node_rt :: runtime where
  "node_rt = \<lparr>Number_toString = show_int, JSON_stringify = node_JSON_stringify,
              String_coerce = node_String, JSON_parse = json_parse,
              Number_positive = node_Number_positive\<rparr>"

text \<open>
  A world whose answers are fixed in advance: the value of the \<^verbatim>\<open>pending_taskcount\<close>
  cache, the answer to the dry run, the answer to \<^verbatim>\<open>Get-Pending-Task\<close>, the answer to
  \<^verbatim>\<open>Task-Response\<close>, and the answer of the inference endpoint. The id of a sent message
  is its \<^verbatim>\<open>Action\<close>.
\<close>

definition scripted_world ::
  "error + jsdata \<Rightarrow> error + MessageResult \<Rightarrow> error + MessageResult \<Rightarrow> error + MessageResult
     \<Rightarrow> error + jsdata \<Rightarrow> world" where
  "scripted_world pending checked fetched submitted inferred =
     \<lparr>dryrun = (\<lambda>options. checked),
      message = (\<lambda>options.
         Inr (case find (\<lambda>t. name t = ''Action'') (tags options) of
                Some t \<Rightarrow> (case value t of JStr a \<Rightarrow> a | _ \<Rightarrow> [])
              | None \<Rightarrow> [])),
      fetchResult = (\<lambda>messageId pid. if messageId = ''Get-Pending-Task'' then fetched else submitted),
      requestHB = (\<lambda>pid tgs dat.
         if map_of tgs ''Action'' = Some (JStr ''Get-Pending-Task'') then fetched else submitted),
      getHBCache = (\<lambda>pid key. pending),
      axios_get = (\<lambda>url query. inferred)\<rparr>"

definition sample_config :: config where
  "sample_config = \<lparr>POOL_PROCESS_ID = ''pool'', HYPERBEAM_URL = ''http://localhost:10000'',
                     POLL_INTERVAL = 1000, NODE_ID = ''node-1''\<rparr>"

text \<open>A result with one message, given by its tags and its data.\<close>

definition reply :: "(string \<times> string) list \<Rightarrow> string \<Rightarrow> MessageResult" where
  "reply tgs d =
     \<lparr>Output = JUndefined,
      Messages = Some [\<lparr>Tags = Some (map (\<lambda>(k, v). \<lparr>name = k, value = v\<rparr>) tgs), Data = Some d\<rparr>],
      Spawns = [], Error = JUndefined\<rparr>"

text \<open>A result whose first message reports status 200 and whose second reports 500.\<close>

definition two_messages :: MessageResult where
  "two_messages =
     \<lparr>Output = JUndefined,
      Messages = Some [\<lparr>Tags = Some [\<lparr>name = ''Status'', value = ''200''\<rparr>], Data = Some ''ok''\<rparr>,
                       \<lparr>Tags = Some [\<lparr>name = ''Status'', value = ''500''\<rparr>], Data = Some ''late''\<rparr>],
      Spawns = [], Error = JUndefined\<rparr>"

text \<open>A result that carries an error next to a message of status 200.\<close>

definition failed_result :: MessageResult where
  "failed_result =
     \<lparr>Output = JUndefined,
      Messages = Some [\<lparr>Tags = Some [\<lparr>name = ''Status'', value = ''200''\<rparr>], Data = Some ''ok''\<rparr>],
      Spawns = [], Error = JStr ''boom''\<rparr>"

text \<open>
  A pool that reports one pending task, answers the availability check with code 200, answers
  the fetch with the given result, accepts the submission, and whose inference service
  returns \<^verbatim>\<open>42\<close>.
\<close>

definition pool_answers :: "MessageResult \<Rightarrow> world" where
  "pool_answers fetched =
     scripted_world (Inr (JNum 1)) (Inr (reply [(''Code'', ''200'')] [])) (Inr fetched)
       (Inr (reply [(''Code'', ''200'')] [])) (Inr (JStr ''42''))"

section \<open>Lemmas on the effect combinators\<close>

lemma io_bind_Returned: "io_bind (tr, Returned x) f = (tr @ fst (f x), snd (f x))"
  by (simp add: io_bind_def)

lemma io_bind_Threw: "io_bind (tr, Threw e) f = (tr, Threw e)"
  by (simp add: io_bind_def)

lemma io_bind_Exited: "io_bind (tr, Exited c) f = (tr, Exited c)"
  by (simp add: io_bind_def)

lemma io_catch_Returned: "io_catch (tr, Returned x) h = (tr, Returned x)"
  by (simp add: io_catch_def)

lemma io_catch_Threw: "io_catch (tr, Threw e) h = (tr @ fst (h e), snd (h e))"
  by (simp add: io_catch_def)

lemma io_catch_Exited: "io_catch (tr, Exited c) h = (tr, Exited c)"
  by (simp add: io_catch_def)

lemma lift_Inr: "lift (Inr x) = ([], Returned x)"
  by (simp add: lift_def io_return_def)

lemma lift_Inl: "lift (Inl e) = ([], Threw e)"
  by (simp add: lift_def io_throw_def)

lemma perform_Inr: "perform ev (Inr x) = ([ev], Returned x)"
  by (simp add: perform_def)

lemma perform_Inl: "perform ev (Inl e) = ([ev], Threw e)"
  by (simp add: perform_def)

lemmas io_simps = io_bind_Returned io_bind_Threw io_bind_Exited io_catch_Returned io_catch_Threw
  io_catch_Exited lift_Inr lift_Inl perform_Inr perform_Inl io_return_def io_throw_def emit_def
  process_exit_def

section \<open>The tag codec\<close>

lemma reduce_tags_snoc:
  "reduce_tags (ts @ [t]) = assign (reduce_tags ts) (name t) (value t)"
  by (simp add: reduce_tags_def)

text \<open>Decoding keeps, for every name but \<^verbatim>\<open>__proto__\<close>, the value of the last tag of that
  name.\<close>

lemma reduce_tags_lookup:
  "reduce_tags ts k =
     (if k = ''__proto__'' then None
      else map_option value (find (\<lambda>t. name t = k) (rev ts)))"
proof (induction ts rule: rev_induct)
  case Nil
  show ?case by (simp add: reduce_tags_def)
next
  case (snoc t ts)
  then show ?case by (auto simp add: reduce_tags_snoc assign_def)
qed

lemma obj2tags_strings:
  assumes "\<forall>v \<in> snd ` set m. \<exists>s. v = Plain (JStr s)"
  shows "obj2tags rt m = Inr (map (\<lambda>(k, v). \<lparr>name = k, value = (case v of Plain d \<Rightarrow> d | Host h \<Rightarrow> JUndefined)\<rparr>) m)"
  using assms
proof (induction m)
  case Nil
  show ?case by simp
next
  case (Cons kv m)
  obtain k v where kv: "kv = (k, v)" by (cases kv)
  from Cons.prems kv obtain s where v: "v = Plain (JStr s)" by auto
  from Cons have "obj2tags rt m = Inr (map (\<lambda>(k, v). \<lparr>name = k, value = (case v of Plain d \<Rightarrow> d | Host h \<Rightarrow> JUndefined)\<rparr>) m)"
    by simp
  then show ?case by (simp add: kv v toString_def)
qed

lemma obj2tags_values:
  "obj2tags rt m = Inr ts \<Longrightarrow>
     map name ts = map fst m \<and> map (\<lambda>t. Inr (value t)) ts = map (\<lambda>kv. toString rt (snd kv)) m"
proof (induction m arbitrary: ts)
  case Nil
  then show ?case by simp
next
  case (Cons kv m)
  obtain k v where kv: "kv = (k, v)" by (cases kv)
  from Cons.prems obtain s ts' where s: "toString rt v = Inr s" and r: "obj2tags rt m = Inr ts'"
    and ts: "ts = \<lparr>name = k, value = s\<rparr> # ts'"
    by (auto simp add: kv split: sum.splits)
  from Cons.IH[OF r] show ?case by (simp add: kv ts s)
qed

lemma find_app:
  "find P (xs @ ys) = (case find P xs of None \<Rightarrow> find P ys | Some x \<Rightarrow> Some x)"
  by (induction xs) auto

lemma find_rev_names:
  assumes "distinct (map name ts)"
  shows "find (\<lambda>t. name t = k) (rev ts) = find (\<lambda>t. name t = k) ts"
  using assms
proof (induction ts)
  case Nil
  show ?case by simp
next
  case (Cons t ts)
  then have IH: "find (\<lambda>t. name t = k) (rev ts) = find (\<lambda>t. name t = k) ts" by simp
  show ?case
  proof (cases "name t = k")
    case True
    with Cons.prems have "k \<notin> name ` set ts" by auto
    then have "find (\<lambda>t. name t = k) ts = None" by (auto simp add: find_None_iff)
    with IH True show ?thesis by (simp add: find_app)
  next
    case False
    with IH show ?thesis by (simp add: find_app split: option.splits)
  qed
qed

lemma decode_encode_lookup:
  assumes d: "distinct (map fst m)" and np: "''__proto__'' \<notin> fst ` set m"
    and enc: "decode_encode rt m = Inr dec"
  shows "dec k = (case map_of m k of
                    None \<Rightarrow> None
                  | Some v \<Rightarrow> (case toString rt v of Inl e \<Rightarrow> None | Inr s \<Rightarrow> Some s))"
proof -
  from enc obtain ts where ts: "obj2tags rt m = Inr ts" and dec: "dec = reduce_tags ts"
    by (auto simp add: decode_encode_def split: sum.splits)
  from obj2tags_values[OF ts] have names: "map name ts = map fst m"
    and vals: "map (\<lambda>t. Inr (value t)) ts = map (\<lambda>kv. toString rt (snd kv)) m" by auto
  have dn: "distinct (map name ts)" using d names by simp
  have look: "map_option value (find (\<lambda>t. name t = k) ts) =
      (case map_of m k of None \<Rightarrow> None | Some v \<Rightarrow> (case toString rt v of Inl e \<Rightarrow> None | Inr s \<Rightarrow> Some s))"
    using names vals
  proof (induction m arbitrary: ts)
    case Nil
    then show ?case by simp
  next
    case (Cons kv m)
    then obtain t ts' where t: "ts = t # ts'" by (cases ts) auto
    obtain k' v' where kv: "kv = (k', v')" by (cases kv)
    from Cons.prems t kv have n: "name t = k'" and tv: "toString rt v' = Inr (value t)"
      and n': "map name ts' = map fst m"
      and v': "map (\<lambda>t. Inr (value t)) ts' = map (\<lambda>kv. toString rt (snd kv)) m" by auto
    show ?case using Cons.IH[OF n' v'] by (simp add: t kv n tv)
  qed
  show ?thesis
  proof (cases "k = ''__proto__''")
    case True
    with np have "map_of m k = None" by (simp add: map_of_eq_None_iff)
    with True show ?thesis by (simp add: dec reduce_tags_lookup)
  next
    case False
    then show ?thesis using look by (simp add: dec reduce_tags_lookup find_rev_names[OF dn])
  qed
qed

text \<open>
  \<^bold>\<open>Claim C5\<close> (amended). The claim reads: for every mapping \<open>m\<close> from string keys to
  primitive values, \<open>decode (encode m) = m\<close>. Encoding turns every value into a string,
  so a number does not come back as a number (\<open>decode_encode_number_counterexample\<close>
  below). What holds: for every object \<open>m\<close> (distinct keys) without an own key
  \<^verbatim>\<open>__proto__\<close>, decoding the encoded tags maps each key of \<open>m\<close> to the string
  \<open>toString\<close> gives for its value and has no other key; so when every value of \<open>m\<close> is
  a string, the encoding succeeds and decoding it gives \<open>m\<close> back.
\<close>

theorem decode_encode_roundtrip:
  assumes "distinct (map fst m)" and "''__proto__'' \<notin> fst ` set m"
  shows "(\<forall>dec. decode_encode rt m = Inr dec \<longrightarrow>
            (\<forall>k. dec k = (case map_of m k of
                             None \<Rightarrow> None
                           | Some v \<Rightarrow> (case toString rt v of Inl e \<Rightarrow> None | Inr s \<Rightarrow> Some s))))
         \<and> ((\<forall>v \<in> snd ` set m. \<exists>s. v = Plain (JStr s)) \<longrightarrow>
            (\<exists>dec. decode_encode rt m = Inr dec \<and> (\<lambda>k. map_option Plain (dec k)) = map_of m))"
proof (intro conjI allI impI)
  fix dec k
  assume "decode_encode rt m = Inr dec"
  from decode_encode_lookup[OF assms this]
  show "dec k = (case map_of m k of
                             None \<Rightarrow> None
                           | Some v \<Rightarrow> (case toString rt v of Inl e \<Rightarrow> None | Inr s \<Rightarrow> Some s))" .
next
  assume strs: "\<forall>v \<in> snd ` set m. \<exists>s. v = Plain (JStr s)"
  from obj2tags_strings[OF strs] obtain ts where "obj2tags rt m = Inr ts" by blast
  then obtain dec where dec: "decode_encode rt m = Inr dec" by (simp add: decode_encode_def)
  have "map_option Plain (dec k) = map_of m k" for k
  proof (cases "map_of m k")
    case None
    then show ?thesis using decode_encode_lookup[OF assms dec, of k] by simp
  next
    case (Some v)
    then have "v \<in> snd ` set m" by (metis image_eqI map_of_SomeD snd_conv)
    with strs obtain s where "v = Plain (JStr s)" by blast
    then show ?thesis using decode_encode_lookup[OF assms dec, of k] Some
      by (simp add: toString_def)
  qed
  then show "\<exists>dec. decode_encode rt m = Inr dec \<and> (\<lambda>k. map_option Plain (dec k)) = map_of m"
    using dec by blast
qed

text \<open>The tags of a \<^verbatim>\<open>Task-Response\<close> request come back as they were.\<close>

theorem decode_encode_roundtrip_witness:
  "(\<exists>dec. decode_encode node_rt [(''Action'', Plain (JStr ''Task-Response'')), (''X-Reference'', Plain (JStr ''t1''))] = Inr dec
      \<and> (\<lambda>k. map_option Plain (dec k)) = map_of [(''Action'', Plain (JStr ''Task-Response'')), (''X-Reference'', Plain (JStr ''t1''))])"
  using decode_encode_roundtrip[of "[(''Action'', Plain (JStr ''Task-Response'')), (''X-Reference'', Plain (JStr ''t1''))]" node_rt]
  by simp

text \<open>The mapping \<^verbatim>\<open>{n: 1}\<close> is encoded as the tag \<^verbatim>\<open>n = "1"\<close> and decoded as
  \<^verbatim>\<open>{n: "1"}\<close>, which is not \<^verbatim>\<open>{n: 1}\<close>.\<close>

theorem decode_encode_number_counterexample:
  "decode_encode node_rt [(''n'', Plain (JNum 1))] = Inr [''n'' \<mapsto> JStr ''1'']
   \<and> (\<lambda>k. map_option Plain ([''n'' \<mapsto> JStr ''1''] k)) \<noteq> map_of [(''n'', Plain (JNum 1))]"
proof -
  have "show_int 1 = ''1''" by code_simp
  then have e: "decode_encode node_rt [(''n'', Plain (JNum 1))] = Inr [''n'' \<mapsto> JStr ''1'']"
    by (simp add: decode_encode_def toString_def node_rt_def reduce_tags_def assign_def)
  have "(\<lambda>k. map_option Plain ([''n'' \<mapsto> JStr ''1''] k)) ''n'' \<noteq> map_of [(''n'', Plain (JNum 1))] ''n''"
    by simp
  then have "(\<lambda>k. map_option Plain ([''n'' \<mapsto> JStr ''1''] k)) \<noteq> map_of [(''n'', Plain (JNum 1))]"
    by metis
  with e show ?thesis by simp
qed

text \<open>
  \<^bold>\<open>Claim C7\<close> (amended). The claim reads: \<open>toString\<close> never throws for any input value,
  circular structures included. It throws where both \<^verbatim>\<open>JSON.stringify\<close> and the fallback
  \<^verbatim>\<open>String\<close> throw (\<open>toString_throws_counterexample\<close> below). What holds, for every
  runtime and every value: a string passes through unchanged; a number is rendered by
  the runtime's decimal form; any other value is given to \<^verbatim>\<open>JSON.stringify\<close>, whose
  result is returned, and when that throws (as on a circular structure) the result is
  that of the generic coercion \<^verbatim>\<open>String\<close>; \<open>toString\<close> throws exactly when the value is
  neither string nor number and both built-ins throw on it.
\<close>

theorem toString_cases:
  "toString rt (Plain (JStr s)) = Inr (JStr s)
   \<and> toString rt (Plain (JNum n)) = Inr (JStr (Number_toString rt n))
   \<and> ((\<forall>s. v \<noteq> Plain (JStr s)) \<and> (\<forall>n. v \<noteq> Plain (JNum n)) \<longrightarrow>
        (\<forall>r. JSON_stringify rt v = Inr r \<longrightarrow>
              toString rt v = Inr (case r of None \<Rightarrow> JUndefined | Some t \<Rightarrow> JStr t))
      \<and> (\<forall>e. JSON_stringify rt v = Inl e \<longrightarrow>
              toString rt v = (case String_coerce rt v of Inl e' \<Rightarrow> Inl e' | Inr t \<Rightarrow> Inr (JStr t))))
   \<and> ((\<exists>e. toString rt v = Inl e) \<longleftrightarrow>
        ((\<forall>s. v \<noteq> Plain (JStr s)) \<and> (\<forall>n. v \<noteq> Plain (JNum n))
         \<and> (\<exists>e. JSON_stringify rt v = Inl e) \<and> (\<exists>e. String_coerce rt v = Inl e)))"
proof -
  have strs: "toString rt (Plain (JStr s)) = Inr (JStr s)"
    by (simp add: toString_def)
  have nums: "toString rt (Plain (JNum n)) = Inr (JStr (Number_toString rt n))"
    by (simp add: toString_def)
  have other: "toString rt v =
      try_catch
        (case JSON_stringify rt v of Inl e \<Rightarrow> Inl e | Inr None \<Rightarrow> Inr JUndefined | Inr (Some s) \<Rightarrow> Inr (JStr s))
        (\<lambda>e. case String_coerce rt v of Inl e' \<Rightarrow> Inl e' | Inr s \<Rightarrow> Inr (JStr s))"
    if "\<forall>s. v \<noteq> Plain (JStr s)" "\<forall>n. v \<noteq> Plain (JNum n)"
    using that by (auto simp add: toString_def split: jsval.splits jsdata.splits)
  have serial: "\<forall>r. JSON_stringify rt v = Inr r \<longrightarrow>
              toString rt v = Inr (case r of None \<Rightarrow> JUndefined | Some t \<Rightarrow> JStr t)"
    if "\<forall>s. v \<noteq> Plain (JStr s)" "\<forall>n. v \<noteq> Plain (JNum n)"
    by (auto simp add: other[OF that] try_catch_def split: option.splits)
  have fallback: "\<forall>e. JSON_stringify rt v = Inl e \<longrightarrow>
              toString rt v = (case String_coerce rt v of Inl e' \<Rightarrow> Inl e' | Inr t \<Rightarrow> Inr (JStr t))"
    if "\<forall>s. v \<noteq> Plain (JStr s)" "\<forall>n. v \<noteq> Plain (JNum n)"
    by (auto simp add: other[OF that] try_catch_def)
  have throws: "(\<exists>e. toString rt v = Inl e) \<longleftrightarrow>
        ((\<forall>s. v \<noteq> Plain (JStr s)) \<and> (\<forall>n. v \<noteq> Plain (JNum n))
         \<and> (\<exists>e. JSON_stringify rt v = Inl e) \<and> (\<exists>e. String_coerce rt v = Inl e))"
  proof (cases "(\<forall>s. v \<noteq> Plain (JStr s)) \<and> (\<forall>n. v \<noteq> Plain (JNum n))")
    case True
    then have o: "toString rt v =
      try_catch
        (case JSON_stringify rt v of Inl e \<Rightarrow> Inl e | Inr None \<Rightarrow> Inr JUndefined | Inr (Some s) \<Rightarrow> Inr (JStr s))
        (\<lambda>e. case String_coerce rt v of Inl e' \<Rightarrow> Inl e' | Inr s \<Rightarrow> Inr (JStr s))"
      using other by blast
    show ?thesis using True
      by (auto simp add: o try_catch_def split: sum.splits option.splits)
  next
    case False
    then show ?thesis using strs nums by (auto simp add: toString_def)
  qed
  from strs nums serial fallback throws show ?thesis by blast
qed

text \<open>An ordinary object that refers to itself cannot be serialised and is rendered as
  \<^verbatim>\<open>[object Object]\<close>.\<close>

theorem toString_cases_witness:
  "toString node_rt (Host 0) = Inr (JStr ''[object Object]'')
   \<and> (\<exists>e. JSON_stringify node_rt (Host 0) = Inl e)"
  using toString_cases[of node_rt "[]" 0 "Host 0"]
  by (simp add: node_rt_def node_JSON_stringify_def node_String_def)

text \<open>A circular object without prototype (\<^verbatim>\<open>const o = Object.create(null); o.self = o\<close>):
  \<^verbatim>\<open>JSON.stringify(o)\<close> throws, the \<^verbatim>\<open>catch\<close> runs \<^verbatim>\<open>String(o)\<close>, and that throws out of
  \<open>toString\<close>.\<close>

theorem toString_throws_counterexample:
  "toString node_rt (Host 1) = Inl (JsTypeError ''Cannot convert object to primitive value'')"
  by (simp add: toString_def try_catch_def node_rt_def node_JSON_stringify_def node_String_def)

section \<open>The result decoder\<close>

text \<open>
  \<^bold>\<open>Claim C8\<close>. For every runtime, result and index, \<open>getDataFromMessage\<close> returns and
  never throws; when the selected message has raw data \<open>d\<close>, it returns what
  \<^verbatim>\<open>JSON.parse\<close> makes of \<open>d\<close>, and \<open>d\<close> itself, unchanged, when \<^verbatim>\<open>JSON.parse\<close> throws. In
  particular, on the data \<^verbatim>\<open>{"a":1}\<close>, which parses to the object \<^verbatim>\<open>{a: 1}\<close>, it returns
  that object, and on the data \<^verbatim>\<open>plain\<close>, which does not parse, it returns the string
  \<^verbatim>\<open>plain\<close>.
\<close>

theorem getDataFromMessage_parse_or_raw:
  \<open>(\<exists>v. getDataFromMessage rt msg index = Inr v)
   \<and> (\<forall>m ms x d. msg = Some m \<and> Messages m = Some ms \<and> at_index ms index = Some x \<and> Data x = Some d \<longrightarrow>
         getDataFromMessage rt msg index =
           (case JSON_parse rt d of Inr v \<Rightarrow> Inr v | Inl e \<Rightarrow> Inr (JStr d)))
   \<and> (\<forall>m ms x. msg = Some m \<and> Messages m = Some ms \<and> at_index ms index = Some x
         \<and> Data x = Some ''{"a":1}'' \<and> JSON_parse rt ''{"a":1}'' = Inr (JObj [(''a'', JNum 1)]) \<longrightarrow>
         getDataFromMessage rt msg index = Inr (JObj [(''a'', JNum 1)]))
   \<and> (\<forall>m ms x e. msg = Some m \<and> Messages m = Some ms \<and> at_index ms index = Some x
         \<and> Data x = Some ''plain'' \<and> JSON_parse rt ''plain'' = Inl e \<longrightarrow>
         getDataFromMessage rt msg index = Inr (JStr ''plain''))\<close>
proof -
  have total: "\<exists>v. getDataFromMessage rt msg index = Inr v"
    by (simp add: getDataFromMessage_def try_catch_def Let_def split: sum.splits)
  have sel: "getDataFromMessage rt (Some m) index =
           (case JSON_parse rt d of Inr v \<Rightarrow> Inr v | Inl e \<Rightarrow> Inr (JStr d))"
    if "Messages m = Some ms" "at_index ms index = Some x" "Data x = Some d"
    for m ms x d
    using that
    by (simp add: getDataFromMessage_def selected_data_def json_parse_data_def raw_data_def
        try_catch_def Let_def split: sum.splits)
  show ?thesis
  proof (intro conjI allI impI)
    show "\<exists>v. getDataFromMessage rt msg index = Inr v" by (rule total)
  qed (auto simp add: sel)
qed

text \<open>The two examples, run on the reference runtime.\<close>

theorem getDataFromMessage_parse_or_raw_witness:
  \<open>getDataFromMessage node_rt (Some (reply [] ''{"a":1}'')) 0 = Inr (JObj [(''a'', JNum 1)])
   \<and> getDataFromMessage node_rt (Some (reply [] ''plain'')) 0 = Inr (JStr ''plain'')\<close>
proof -
  have a: \<open>JSON_parse node_rt ''{"a":1}'' = Inr (JObj [(''a'', JNum 1)])\<close>
    unfolding node_rt_def by (simp, code_simp)
  have p: \<open>JSON_parse node_rt ''plain'' = Inl (JsSyntaxError ''Unexpected token in JSON'')\<close>
    unfolding node_rt_def by (simp, code_simp)
  have i: "at_index [x] 0 = Some x" for x :: ResponseMessage
    by (simp add: at_index_def)
  show ?thesis
    using getDataFromMessage_parse_or_raw[of node_rt \<open>Some (reply [] ''{"a":1}'')\<close> 0]
          getDataFromMessage_parse_or_raw[of node_rt \<open>Some (reply [] ''plain'')\<close> 0]
    by (simp add: reply_def i a p)
qed

text \<open>
  \<^bold>\<open>Claim C9\<close>. \<open>extractMessage\<close> of hb.ts fails with \<^verbatim>\<open>Invalid message format\<close> exactly
  when the result or its \<open>Messages\<close> field is missing, and with \<^verbatim>\<open>Index out of bounds\<close>
  exactly when \<open>Messages\<close> is there and has no message at the index; on a message with
  tags it returns the decoded tags, a mapping from names to strings in which each name
  (other than \<^verbatim>\<open>__proto__\<close>) has the value of its last tag, together with the message's
  data.
\<close>

theorem extractMessage_errors:
  "(extractMessage msg idx = Inl (JsError ''Invalid message format'')
      \<longleftrightarrow> (msg = None \<or> (\<exists>m. msg = Some m \<and> Messages m = None)))
   \<and> (extractMessage msg idx = Inl (JsError ''Index out of bounds'')
      \<longleftrightarrow> (\<exists>m ms. msg = Some m \<and> Messages m = Some ms \<and> at_index ms idx = None))
   \<and> (\<forall>m ms x ts. msg = Some m \<and> Messages m = Some ms \<and> at_index ms idx = Some x \<and> Tags x = Some ts \<longrightarrow>
         extractMessage msg idx = Inr (reduce_tags ts, Data x)
         \<and> (\<forall>k. k \<noteq> ''__proto__'' \<longrightarrow>
               reduce_tags ts k = map_option value (find (\<lambda>t. name t = k) (rev ts))))"
proof -
  have fmt: "extractMessage msg idx = Inl (JsError ''Invalid message format'')
      \<longleftrightarrow> (msg = None \<or> (\<exists>m. msg = Some m \<and> Messages m = None))"
    by (auto simp add: extractMessage_def split: option.splits)
  have oob: "extractMessage msg idx = Inl (JsError ''Index out of bounds'')
      \<longleftrightarrow> (\<exists>m ms. msg = Some m \<and> Messages m = Some ms \<and> at_index ms idx = None)"
  proof (cases msg)
    case None
    then show ?thesis by (simp add: extractMessage_def)
  next
    case (Some m)
    show ?thesis
    proof (cases "Messages m")
      case None
      with Some show ?thesis by (simp add: extractMessage_def)
    next
      case (Some ms)
      with \<open>msg = Some m\<close> show ?thesis
        by (simp add: extractMessage_def at_index_def split: option.splits)
    qed
  qed
  have dec: "extractMessage (Some m) idx = Inr (reduce_tags ts, Data x)"
    if "Messages m = Some ms" "at_index ms idx = Some x" "Tags x = Some ts" for m ms x ts
    using that by (auto simp add: extractMessage_def at_index_def split: if_splits)
  show ?thesis
    using fmt oob dec by (auto simp add: reduce_tags_lookup)
qed

text \<open>A missing result, an index past the end, a negative index, and a message with two
  \<^verbatim>\<open>Code\<close> tags.\<close>

theorem extractMessage_errors_witness:
  "extractMessage None 0 = Inl (JsError ''Invalid message format'')
   \<and> extractMessage (Some (reply [(''Code'', ''200'')] ''x'')) 1 = Inl (JsError ''Index out of bounds'')
   \<and> extractMessage (Some (reply [(''Code'', ''200'')] ''x'')) (- 1) = Inl (JsError ''Index out of bounds'')
   \<and> map_option (\<lambda>r. (fst r ''Code'', snd r))
        (case extractMessage (Some (reply [(''Code'', ''500''), (''Code'', ''200'')] ''x'')) 0 of
           Inl e \<Rightarrow> None | Inr r \<Rightarrow> Some r) = Some (Some ''200'', Some ''x'')"
  using extractMessage_errors[of None 0]
        extractMessage_errors[of "Some (reply [(''Code'', ''200'')] ''x'')" 1]
        extractMessage_errors[of "Some (reply [(''Code'', ''200'')] ''x'')" "- 1"]
        extractMessage_errors[of "Some (reply [(''Code'', ''500''), (''Code'', ''200'')] ''x'')" 0]
  by (simp add: reply_def at_index_def)

section \<open>The Process Client\<close>

lemma handleResult_error_field:
  assumes "Error result = JStr m" and "m \<noteq> []"
  shows "handleResult rt this msgType result reqTags reqData checkStatus = ([], Threw (JsError m))"
  using assms
  by (simp add: handleResult_def toString_def new_Error_def io_simps)

text \<open>
  \<^bold>\<open>Claim C2\<close>. When the envelope has been built and the round trip has delivered a
  result whose \<open>Error\<close> field is a non-empty string \<open>m\<close>, \<open>execute\<close> throws
  \<^verbatim>\<open>new Error(m)\<close>, whatever \<open>checkStatus\<close> is; \<open>handleResult\<close> throws it with an empty trace,
  whatever the messages and their \<^verbatim>\<open>Status\<close> tags are. (In development mode the log line
  of the \<^verbatim>\<open>catch\<close> block must render.)
\<close>

theorem execute_error_field:
  assumes built: "envelope rt this reqTags reqData = Inr options"
    and received: "snd (send w this msgType options) = Returned result"
    and err: "Error result = JStr m" "m \<noteq> []"
    and label: "isDevEnvironment this \<longrightarrow> (\<exists>l. action_label rt reqTags msgType = Inr l)"
  shows "snd (execute rt w this msgType reqTags reqData checkStatus) = Threw (JsError m)
         \<and> handleResult rt this msgType result reqTags reqData checkStatus = ([], Threw (JsError m))"
proof -
  obtain tr where s: "send w this msgType options = (tr, Returned result)"
    using received by (cases "send w this msgType options") simp
  have h: "handleResult rt this msgType result reqTags reqData checkStatus = ([], Threw (JsError m))"
    by (rule handleResult_error_field[OF err])
  show ?thesis
  proof (cases "isDevEnvironment this")
    case False
    then show ?thesis by (simp add: execute_def built s h io_simps)
  next
    case True
    with label obtain l where "action_label rt reqTags msgType = Inr l" by blast
    with True show ?thesis by (simp add: execute_def built s h logError_def io_simps)
  qed
qed

text \<open>A dry run answered with the error \<^verbatim>\<open>boom\<close> next to a message of status 200, with and
  without the status check.\<close>

theorem execute_error_field_witness:
  "snd (execute node_rt (scripted_world (Inr JNull) (Inr failed_result) (Inr failed_result) (Inr failed_result) (Inr JNull))
          (poolProcess sample_config) ''dryrun'' [(''Action'', Plain (JStr ''Has-Pending-Task''))] (Plain JNull) True)
     = Threw (JsError ''boom'')
   \<and> snd (execute node_rt (scripted_world (Inr JNull) (Inr failed_result) (Inr failed_result) (Inr failed_result) (Inr JNull))
          (poolProcess sample_config) ''dryrun'' [(''Action'', Plain (JStr ''Has-Pending-Task''))] (Plain JNull) False)
     = Threw (JsError ''boom'')"
proof -
  let ?w = "scripted_world (Inr JNull) (Inr failed_result) (Inr failed_result) (Inr failed_result) (Inr JNull)"
  let ?opts = "\<lparr>process = ''pool'', data = JStr ''null'',
                 tags = [\<lparr>name = ''Action'', value = JStr ''Has-Pending-Task''\<rparr>], Owner = None\<rparr>"
  have b: "envelope node_rt (poolProcess sample_config) [(''Action'', Plain (JStr ''Has-Pending-Task''))] (Plain JNull) = Inr ?opts"
    by (simp add: envelope_def toString_def try_catch_def node_rt_def node_JSON_stringify_def
        poolProcess_def sample_config_def)
  have r: "snd (send ?w (poolProcess sample_config) ''dryrun'' ?opts) = Returned failed_result"
    by (simp add: send_def scripted_world_def io_simps)
  have e: "Error failed_result = JStr ''boom''" "''boom'' \<noteq> []"
    by (simp_all add: failed_result_def)
  have d: "isDevEnvironment (poolProcess sample_config) \<longrightarrow> (\<exists>l. action_label node_rt [(''Action'', Plain (JStr ''Has-Pending-Task''))] ''dryrun'' = Inr l)"
    by (simp add: poolProcess_def)
  from execute_error_field[OF b r e d, of True] execute_error_field[OF b r e d, of False]
  show ?thesis by simp
qed

lemma handleResult_status_ok:
  assumes first: "Messages result = Some (first # rest)"
    and status: "case Tags first of
                   None \<Rightarrow> True
                 | Some ts \<Rightarrow> (case find (\<lambda>t. name t = ''Status'') (rev ts) of
                               None \<Rightarrow> True
                             | Some t \<Rightarrow> value t = ''200'')"
  shows "handleResult rt this msgType result reqTags reqData True =
         handleResult rt this msgType result reqTags reqData False"
proof -
  have "(case getTagsFromMessage (Some result) 0 of None \<Rightarrow> None | Some t \<Rightarrow> t ''Status'') = None
        \<or> (case getTagsFromMessage (Some result) 0 of None \<Rightarrow> None | Some t \<Rightarrow> t ''Status'') = Some ''200''"
    using first status
    by (auto simp add: getTagsFromMessage_def at_index_def reduce_tags_lookup split: option.splits)
  then show ?thesis
    by (auto simp add: handleResult_def Let_def)
qed

text \<open>
  \<^bold>\<open>Claim C10\<close>. The status check reads the first message only. When the envelope has
  been built and the round trip has delivered a result whose first message has no
  \<^verbatim>\<open>Status\<close> tag, or whose last \<^verbatim>\<open>Status\<close> tag is \<^verbatim>\<open>200\<close>, then \<open>execute\<close> with the status
  check does exactly what it does without it, whatever the other messages carry; and
  when the result has no error either, \<open>execute\<close> returns the result. (In development
  mode the log line must render.)
\<close>

theorem execute_status_first_message:
  assumes built: "envelope rt this reqTags reqData = Inr options"
    and received: "snd (send w this msgType options) = Returned result"
    and first: "Messages result = Some (first # rest)"
    and status: "case Tags first of
                   None \<Rightarrow> True
                 | Some ts \<Rightarrow> (case find (\<lambda>t. name t = ''Status'') (rev ts) of
                               None \<Rightarrow> True
                             | Some t \<Rightarrow> value t = ''200'')"
    and label: "isDevEnvironment this \<longrightarrow> (\<exists>l. action_label rt reqTags msgType = Inr l)"
  shows "execute rt w this msgType reqTags reqData True = execute rt w this msgType reqTags reqData False
         \<and> (\<not> js_truthy (Error result) \<longrightarrow>
              snd (execute rt w this msgType reqTags reqData True) = Returned result)"
proof -
  obtain tr where s: "send w this msgType options = (tr, Returned result)"
    using received by (cases "send w this msgType options") simp
  have same: "handleResult rt this msgType result reqTags reqData True =
         handleResult rt this msgType result reqTags reqData False"
    by (rule handleResult_status_ok[OF first status])
  have eq: "execute rt w this msgType reqTags reqData True = execute rt w this msgType reqTags reqData False"
    by (simp add: execute_def built s same io_simps)
  have ok: "snd (execute rt w this msgType reqTags reqData False) = Returned result"
    if "\<not> js_truthy (Error result)"
  proof (cases "isDevEnvironment this")
    case False
    with that show ?thesis
      by (simp add: execute_def built s handleResult_def io_simps)
  next
    case True
    with label obtain l where "action_label rt reqTags msgType = Inr l" by blast
    with True that show ?thesis
      by (simp add: execute_def built s handleResult_def logDebugInfo_def io_simps)
  qed
  from eq ok show ?thesis by simp
qed

text \<open>A dry run answered with two messages, the first of status 200 and the second of
  status 500: the call returns the result.\<close>

theorem execute_status_first_message_witness:
  "snd (execute node_rt (scripted_world (Inr JNull) (Inr two_messages) (Inr two_messages) (Inr two_messages) (Inr JNull))
          (poolProcess sample_config) ''dryrun'' [(''Action'', Plain (JStr ''Has-Pending-Task''))] (Plain JNull) True)
     = Returned two_messages"
proof -
  let ?w = "scripted_world (Inr JNull) (Inr two_messages) (Inr two_messages) (Inr two_messages) (Inr JNull)"
  let ?opts = "\<lparr>process = ''pool'', data = JStr ''null'',
                 tags = [\<lparr>name = ''Action'', value = JStr ''Has-Pending-Task''\<rparr>], Owner = None\<rparr>"
  have b: "envelope node_rt (poolProcess sample_config) [(''Action'', Plain (JStr ''Has-Pending-Task''))] (Plain JNull) = Inr ?opts"
    by (simp add: envelope_def toString_def try_catch_def node_rt_def node_JSON_stringify_def
        poolProcess_def sample_config_def)
  have r: "snd (send ?w (poolProcess sample_config) ''dryrun'' ?opts) = Returned two_messages"
    by (simp add: send_def scripted_world_def io_simps)
  have f: "Messages two_messages = Some (\<lparr>Tags = Some [\<lparr>name = ''Status'', value = ''200''\<rparr>], Data = Some ''ok''\<rparr>
      # [\<lparr>Tags = Some [\<lparr>name = ''Status'', value = ''500''\<rparr>], Data = Some ''late''\<rparr>])"
    by (simp add: two_messages_def)
  have st: "case Tags \<lparr>Tags = Some [\<lparr>name = ''Status'', value = ''200''\<rparr>], Data = Some ''ok''\<rparr> of
                   None \<Rightarrow> True
                 | Some ts \<Rightarrow> (case find (\<lambda>t. name t = ''Status'') (rev ts) of
                               None \<Rightarrow> True
                             | Some t \<Rightarrow> value t = ''200'')"
    by simp
  have d: "isDevEnvironment (poolProcess sample_config) \<longrightarrow>
      (\<exists>l. action_label node_rt [(''Action'', Plain (JStr ''Has-Pending-Task''))] ''dryrun'' = Inr l)"
    by (simp add: poolProcess_def)
  have n: "\<not> js_truthy (Error two_messages)"
    by (simp add: two_messages_def)
  from execute_status_first_message[OF b r f st d] n show ?thesis
    by blast
qed

section \<open>The poll loop: every pass ends in the same wait\<close>

lemma waits_append: "waits (xs @ ys) = waits xs @ waits ys"
  by (induction xs rule: waits.induct) simp_all

lemma quiet_return: "quiet (io_return x)" by (simp add: quiet_def io_return_def)
lemma quiet_throw: "quiet (io_throw e)" by (simp add: quiet_def io_throw_def)
lemma quiet_lift: "quiet (lift r)" by (cases r) (simp_all add: quiet_def lift_def io_return_def io_throw_def)
lemma quiet_log: "quiet (emit (Log l s))" by (simp add: quiet_def emit_def)
lemma quiet_console: "quiet (emit (ConsoleLog s))" "quiet (emit (ConsoleError e))"
  by (simp_all add: quiet_def emit_def)
lemma quiet_perform:
  "waits [ev] = [] \<Longrightarrow> quiet (perform ev r)"
  by (cases r) (simp_all add: quiet_def perform_def)

lemma quiet_bind: "quiet m \<Longrightarrow> (\<And>x. quiet (f x)) \<Longrightarrow> quiet (io_bind m f)"
  by (cases m) (auto simp add: quiet_def io_bind_def waits_append split: completion.splits)

lemma quiet_catch: "quiet m \<Longrightarrow> (\<And>e. quiet (h e)) \<Longrightarrow> quiet (io_catch m h)"
  by (cases m) (auto simp add: quiet_def io_catch_def waits_append split: completion.splits)

lemma quiet_if: "quiet a \<Longrightarrow> quiet b \<Longrightarrow> quiet (if c then a else b)"
  by simp

lemmas quiet_intros = quiet_bind quiet_catch quiet_if quiet_return quiet_throw quiet_lift quiet_log
  quiet_console quiet_perform

lemma quiet_hasPendingTask: "quiet (hasPendingTask rt w cfg)"
  unfolding hasPendingTask_def by (intro quiet_intros) simp

lemma quiet_receiveTask: "quiet (receiveTask rt w cfg nodeID)"
  unfolding receiveTask_def
  by (intro quiet_intros) (auto intro!: quiet_intros split: option.splits list.splits prod.splits)

lemma quiet_runHyperBeamInference: "quiet (runHyperBeamInference rt w cfg prompt conf)"
  unfolding runHyperBeamInference_def by (intro quiet_intros) simp

lemma quiet_runHyperBeamInference_ao: "quiet (runHyperBeamInference_ao rt w cfg prompt conf)"
  unfolding runHyperBeamInference_ao_def by (intro quiet_intros) simp

lemma quiet_sendTaskResponse: "quiet (sendTaskResponse w cfg nodeID ref output)"
  unfolding sendTaskResponse_def by (intro quiet_intros) simp

lemma quiet_logDebugInfo: "quiet (logDebugInfo rt reqTags msgType)"
  unfolding logDebugInfo_def by (intro quiet_intros)

lemma quiet_logError: "quiet (logError rt reqTags msgType)"
  unfolding logError_def by (intro quiet_intros)

lemma quiet_handleResult: "quiet (handleResult rt this msgType result reqTags reqData checkStatus)"
  unfolding handleResult_def Let_def
  by (auto intro!: quiet_intros quiet_logDebugInfo split: option.splits)

lemma quiet_send: "quiet (send w this msgType options)"
  unfolding send_def by (intro quiet_intros) simp_all

lemma quiet_execute: "quiet (execute rt w this msgType reqTags reqData checkStatus)"
  unfolding execute_def
  by (intro quiet_intros quiet_send quiet_handleResult quiet_logError)

lemma quiet_process_task: "quiet (process_task rt cfg w result)"
  unfolding process_task_def sendMessage_def
  by (intro quiet_intros quiet_execute quiet_runHyperBeamInference_ao)

lemma paced_wait: "paced p (emit (SetTimeout p))"
  by (simp add: paced_def emit_def)

lemma paced_exit: "paced p (process_exit 1)"
  by (simp add: paced_def process_exit_def)

lemma silent_of_quiet: "quiet m \<Longrightarrow> silent m"
  by (simp add: quiet_def silent_def)

lemma silent_exit: "silent (process_exit 1)"
  by (simp add: silent_def process_exit_def)

lemma silent_bind: "quiet m \<Longrightarrow> (\<And>x. silent (f x)) \<Longrightarrow> silent (io_bind m f)"
  by (cases m) (auto simp add: quiet_def silent_def io_bind_def waits_append split: completion.splits)

lemma silent_if: "silent a \<Longrightarrow> silent b \<Longrightarrow> silent (if c then a else b)"
  by simp

lemma paced_bind: "silent m \<Longrightarrow> (\<And>x. paced p (f x)) \<Longrightarrow> paced p (io_bind m f)"
proof -
  assume q: "silent m" and f: "\<And>x. paced p (f x)"
  obtain tr r where m: "m = (tr, r)" by (cases m)
  show ?thesis
  proof (cases r)
    case (Returned x)
    with q m have w: "waits tr = []" by (simp add: silent_def)
    from f[of x] show ?thesis
      by (cases "snd (f x)") (auto simp add: paced_def io_bind_def m Returned waits_append w)
  next
    case (Threw e)
    with q m show ?thesis by (simp add: paced_def silent_def io_bind_def)
  next
    case (Exited c)
    with q m show ?thesis by (simp add: paced_def silent_def io_bind_def)
  qed
qed

lemma paced_if: "paced p a \<Longrightarrow> paced p b \<Longrightarrow> paced p (if c then a else b)"
  by simp

lemma paced_catch:
  assumes body: "paced p m" and handler: "\<And>e. h e = io_bind (emit (Log Err s)) (\<lambda>_. emit (SetTimeout p))"
  shows "(snd (io_catch m h) = Returned () \<and> waits (fst (io_catch m h)) = [p]
          \<and> last (fst (io_catch m h)) = SetTimeout p)
         \<or> (snd (io_catch m h) = Exited 1 \<and> waits (fst (io_catch m h)) = [])"
proof -
  obtain tr r where m: "m = (tr, r)" by (cases m)
  show ?thesis
  proof (cases r)
    case (Returned u)
    with body m show ?thesis by (simp add: paced_def io_catch_def)
  next
    case (Threw e)
    with body m show ?thesis
      by (simp add: paced_def io_catch_def handler io_bind_def emit_def waits_append)
  next
    case (Exited c)
    with body m show ?thesis by (simp add: paced_def io_catch_def)
  qed
qed

lemma no_exit_of_quiet: "quiet m \<Longrightarrow> no_exit m"
  by (simp add: quiet_def no_exit_def)

lemma no_exit_emit: "no_exit (emit ev)"
  by (simp add: no_exit_def emit_def)

lemma no_exit_bind: "no_exit m \<Longrightarrow> (\<And>x. no_exit (f x)) \<Longrightarrow> no_exit (io_bind m f)"
  by (cases m) (auto simp add: no_exit_def io_bind_def split: completion.splits)

lemma no_exit_catch: "no_exit m \<Longrightarrow> (\<And>e. no_exit (h e)) \<Longrightarrow> no_exit (io_catch m h)"
  by (cases m) (auto simp add: no_exit_def io_catch_def split: completion.splits)

lemma no_exit_if: "no_exit a \<Longrightarrow> no_exit b \<Longrightarrow> no_exit (if c then a else b)"
  by simp

lemma main_iteration_paced:
  "snd (main_iteration rt cfg w) = Returned ()
   \<and> waits (fst (main_iteration rt cfg w)) = [POLL_INTERVAL cfg]
   \<and> last (fst (main_iteration rt cfg w)) = SetTimeout (POLL_INTERVAL cfg)"
proof -
  have "no_exit (main_iteration rt cfg w)"
    unfolding main_iteration_def
    by (intro no_exit_catch no_exit_bind no_exit_if no_exit_emit
          no_exit_of_quiet[OF quiet_hasPendingTask] no_exit_of_quiet[OF quiet_receiveTask]
          no_exit_of_quiet[OF quiet_runHyperBeamInference] no_exit_of_quiet[OF quiet_sendTaskResponse]
          no_exit_of_quiet[OF quiet_lift] no_exit_of_quiet[OF quiet_return])
  then have ne: "snd (main_iteration rt cfg w) \<noteq> Exited 1"
    by (simp add: no_exit_def)
  have "(snd (main_iteration rt cfg w) = Returned () \<and> waits (fst (main_iteration rt cfg w)) = [POLL_INTERVAL cfg]
          \<and> last (fst (main_iteration rt cfg w)) = SetTimeout (POLL_INTERVAL cfg))
         \<or> (snd (main_iteration rt cfg w) = Exited 1 \<and> waits (fst (main_iteration rt cfg w)) = [])"
    unfolding main_iteration_def
    by (rule paced_catch[where s = "''Error in main loop''"])
       (intro paced_bind paced_if paced_wait silent_of_quiet quiet_intros quiet_hasPendingTask
          quiet_receiveTask quiet_runHyperBeamInference quiet_sendTaskResponse, rule refl)
  with ne show ?thesis by blast
qed

lemma main_iteration_ao_paced:
  "(snd (main_iteration_ao rt cfg w) = Returned ()
      \<and> waits (fst (main_iteration_ao rt cfg w)) = [POLL_INTERVAL cfg]
      \<and> last (fst (main_iteration_ao rt cfg w)) = SetTimeout (POLL_INTERVAL cfg))
   \<or> (snd (main_iteration_ao rt cfg w) = Exited 1 \<and> waits (fst (main_iteration_ao rt cfg w)) = [])"
  unfolding main_iteration_ao_def dryRun_def sendMessage_def
  by (rule paced_catch[where s = "''Error in main loop''"])
     (intro paced_bind paced_if paced_wait silent_if silent_bind silent_exit
        silent_of_quiet[OF quiet_process_task] silent_of_quiet[OF quiet_execute]
        silent_of_quiet[OF quiet_log] quiet_log, rule refl)

lemma main_loop_waits:
  "waits (fst (main_loop (main_iteration rt cfg) ws)) = replicate (length ws) (POLL_INTERVAL cfg)
   \<and> snd (main_loop (main_iteration rt cfg) ws) = Returned ()"
proof (induction ws)
  case Nil
  show ?case by (simp add: io_return_def)
next
  case (Cons w ws)
  obtain tr where m: "main_iteration rt cfg w = (tr, Returned ())" and tr: "waits tr = [POLL_INTERVAL cfg]"
    using main_iteration_paced[of rt cfg w] by (cases "main_iteration rt cfg w") auto
  from Cons show ?case by (simp add: m io_bind_def waits_append tr)
qed

lemma main_loop_ao_waits:
  "\<exists>n\<le>length ws. waits (fst (main_loop (main_iteration_ao rt cfg) ws)) = replicate n (POLL_INTERVAL cfg)"
proof (induction ws)
  case Nil
  show ?case by (simp add: io_return_def)
next
  case (Cons w ws)
  then obtain n where n: "n \<le> length ws"
    and ih: "waits (fst (main_loop (main_iteration_ao rt cfg) ws)) = replicate n (POLL_INTERVAL cfg)"
    by blast
  obtain tr r where m: "main_iteration_ao rt cfg w = (tr, r)" by (cases "main_iteration_ao rt cfg w")
  from main_iteration_ao_paced[of rt cfg w] m
  consider "r = Returned ()" "waits tr = [POLL_INTERVAL cfg]" | "r = Exited 1" "waits tr = []"
    by auto
  then show ?case
  proof cases
    case 1
    then have "waits (fst (main_loop (main_iteration_ao rt cfg) (w # ws))) = replicate (Suc n) (POLL_INTERVAL cfg)"
      by (simp add: m io_bind_def waits_append ih)
    with n show ?thesis by (intro exI[of _ "Suc n"]) simp
  next
    case 2
    then have "waits (fst (main_loop (main_iteration_ao rt cfg) (w # ws))) = replicate 0 (POLL_INTERVAL cfg)"
      by (simp add: m io_bind_def)
    then show ?thesis by (intro exI[of _ 0]) simp
  qed
qed

text \<open>
  \<^bold>\<open>Claim C6\<close>. In the loop of src/index.ts no pass throws and none exits: whatever the
  world answers, the pass returns, and its trace holds exactly one wait, its last event,
  of \<open>POLL_INTERVAL\<close> milliseconds; this covers the pass without pending work, the pass
  that processed a task and the pass that ended in the \<^verbatim>\<open>catch\<close> block alike. A pass of
  the AOProcess-based loop does the same or exits with code 1 without waiting (the
  authorization failure). Hence in any run of either loop every wait lasts
  \<open>POLL_INTERVAL\<close>, however many passes failed before it.
\<close>

theorem poll_interval_fixed:
  "snd (main_iteration rt cfg w) = Returned ()
   \<and> waits (fst (main_iteration rt cfg w)) = [POLL_INTERVAL cfg]
   \<and> last (fst (main_iteration rt cfg w)) = SetTimeout (POLL_INTERVAL cfg)
   \<and> ((snd (main_iteration_ao rt cfg w) = Returned ()
         \<and> waits (fst (main_iteration_ao rt cfg w)) = [POLL_INTERVAL cfg]
         \<and> last (fst (main_iteration_ao rt cfg w)) = SetTimeout (POLL_INTERVAL cfg))
       \<or> (snd (main_iteration_ao rt cfg w) = Exited 1 \<and> waits (fst (main_iteration_ao rt cfg w)) = []))
   \<and> waits (fst (main_loop (main_iteration rt cfg) ws)) = replicate (length ws) (POLL_INTERVAL cfg)
   \<and> (\<exists>n\<le>length ws. waits (fst (main_loop (main_iteration_ao rt cfg) ws)) = replicate n (POLL_INTERVAL cfg))"
  using main_iteration_paced[of rt cfg w] main_iteration_ao_paced[of rt cfg w]
    main_loop_waits[of rt cfg ws] main_loop_ao_waits[of ws rt cfg]
  by blast

text \<open>A pass in which the cache cannot be read, and a pass without pending work: two
  waits of 1000 ms.\<close>

theorem poll_interval_fixed_witness:
  "waits (fst (main_loop (main_iteration node_rt sample_config)
      [scripted_world (Inl (JsError ''timeout'')) (Inr two_messages) (Inr two_messages) (Inr two_messages) (Inr JNull),
       scripted_world (Inr (JNum 0)) (Inr two_messages) (Inr two_messages) (Inr two_messages) (Inr JNull)]))
     = [1000, 1000]"
  using poll_interval_fixed[of node_rt sample_config
      "scripted_world (Inl (JsError ''timeout'')) (Inr two_messages) (Inr two_messages) (Inr two_messages) (Inr JNull)"
      "[scripted_world (Inl (JsError ''timeout'')) (Inr two_messages) (Inr two_messages) (Inr two_messages) (Inr JNull),
        scripted_world (Inr (JNum 0)) (Inr two_messages) (Inr two_messages) (Inr two_messages) (Inr JNull)]"]
  by (simp add: sample_config_def numeral_2_eq_2)

section \<open>One pass of the poll loop, by the code of the fetch reply\<close>

text \<open>
  The facts below follow one pass of each poller through the fetch of a task. The reply to
  \<^verbatim>\<open>Get-Pending-Task\<close> is a result whose first message carries the tag \<^verbatim>\<open>Code\<close>; the
  availability check before it has said that a task is pending.
\<close>

lemma hasPendingTask_positive:
  assumes "getHBCache w (PoolProcess cfg) ''pending_taskcount'' = Inr n" and "Number_positive rt n"
  shows "hasPendingTask rt w cfg = ([GetHBCache (PoolProcess cfg) ''pending_taskcount''], Returned True)"
  using assms by (simp add: hasPendingTask_def io_simps)

lemma receiveTask_dispatch:
  assumes fetched: "requestHB w (PoolProcess cfg)
        [(''Action'', JStr ''Get-Pending-Task''), (''Nodeid'', JStr nodeID)] JUndefined = Inr msg"
    and noerr: "\<not> js_truthy (Error msg)"
    and first: "Messages msg = Some (first # rest)" and tgs: "Tags first = Some ts"
  shows "receiveTask rt w cfg nodeID =
     ([RequestHB (PoolProcess cfg) [(''Action'', JStr ''Get-Pending-Task''), (''Nodeid'', JStr nodeID)] JUndefined],
      if reduce_tags ts ''Code'' = Some ''200'' then
        (case json_parse_data rt (Data first) of Inl e \<Rightarrow> Threw e | Inr t \<Rightarrow> Returned t)
      else if reduce_tags ts ''Code'' = Some ''403'' then Threw (JsTypeError ''msg.Error is not a function'')
      else if reduce_tags ts ''Code'' = Some ''204'' then Threw (JsError ''No pending tasks available'')
      else Threw (JsError (failure_text (reduce_tags ts) (Data first))))"
proof -
  have x: "extractMessage (Some msg) 0 = Inr (reduce_tags ts, Data first)"
    using first tgs by (simp add: extractMessage_def)
  show ?thesis
    by (simp add: receiveTask_def fetched noerr x first io_simps lift_def split: sum.splits)
qed

lemma code_lookup:
  "map_option value (find (\<lambda>t. name t = ''Code'') (rev ts)) = c \<Longrightarrow> reduce_tags ts ''Code'' = c"
  by (simp add: reduce_tags_lookup)

lemma tags_or_empty_first:
  assumes "Messages r = Some (first # rest)" and "Tags first = Some ts"
  shows "tags_or_empty r = reduce_tags ts"
  using assms by (simp add: tags_or_empty_def getTagsFromMessage_def at_index_def)

lemma getDataFromMessage_first:
  assumes "Messages r = Some (first # rest)" and "Data first = Some payload"
    and "JSON_parse rt payload = Inr v"
  shows "getDataFromMessage rt (Some r) 0 = Inr v"
  using assms
  by (simp add: getDataFromMessage_def selected_data_def at_index_def json_parse_data_def
      try_catch_def)

lemma fst_io_bind_starts:
  "fst m = ev # tr \<Longrightarrow> \<exists>tr'. fst (io_bind m f) = ev # tr'"
  by (cases m) (auto simp add: io_bind_def split: completion.splits)

lemma fst_io_catch_starts:
  "fst m = ev # tr \<Longrightarrow> \<exists>tr'. fst (io_catch m h) = ev # tr'"
  by (cases m) (auto simp add: io_catch_def split: completion.splits)

lemma send_message_starts:
  "\<exists>tr. fst (send w this ''message'' options) = Message options # tr"
  by (cases "message w options") (simp_all add: send_def io_simps)

lemma io_bind_lift_Inr: "io_bind (lift (Inr x)) f = f x"
  by (simp add: io_simps)

lemma execute_message_starts:
  assumes "envelope rt this reqTags reqData = Inr options"
  shows "\<exists>tr. fst (execute rt w this ''message'' reqTags reqData checkStatus) = Message options # tr"
proof -
  obtain tr where s: "fst (send w this ''message'' options) = Message options # tr"
    using send_message_starts by blast
  from fst_io_bind_starts[OF s] obtain tr' where
    "fst (io_bind (send w this ''message'' options) (\<lambda>msgResult.
        io_bind (handleResult rt this ''message'' msgResult reqTags reqData checkStatus) (\<lambda>_.
        io_bind (if isDevEnvironment this
                 then emit (ConsoleLog (''AO '' @ ''message'' @ '' completed''))
                 else io_return ()) (\<lambda>_.
        io_return msgResult)))) = Message options # tr'"
    by blast
  from fst_io_catch_starts[OF this] show ?thesis
    unfolding execute_def assms io_bind_lift_Inr .
qed

lemma submit_envelope:
  assumes "toString rt (Plain (JObj [(''output'', out)])) = Inr d"
  shows "envelope rt (poolProcess cfg)
           [(''Action'', Plain (JStr ''Task-Response'')),
            (''X-Oracle-Node-Id'', Plain (JStr (NODE_ID cfg))),
            (''X-Reference'', Plain (JStr ref))]
           (Plain (JObj [(''output'', out)])) =
         Inr \<lparr>process = POOL_PROCESS_ID cfg, data = d,
              tags = [\<lparr>name = ''Action'', value = JStr ''Task-Response''\<rparr>,
                      \<lparr>name = ''X-Oracle-Node-Id'', value = JStr (NODE_ID cfg)\<rparr>,
                      \<lparr>name = ''X-Reference'', value = JStr ref\<rparr>],
              Owner = None\<rparr>"
  using assms by (simp add: envelope_def poolProcess_def toString_def)

lemma inference_ao_plain:
  assumes "axios_get w (inference_url cfg) [(''prompt'', p)] = Inr out"
  shows "runHyperBeamInference_ao rt w cfg (JStr p) JUndefined =
     ([Log Info ''Sending inference request to HyperBEAM'',
       AxiosGet (inference_url cfg) [(''prompt'', p)] 120000], Returned out)"
  using assms by (simp add: runHyperBeamInference_ao_def template_def preview_def io_simps)

lemma inference_hb:
  assumes "axios_get w (inference_url cfg) ((''prompt'', p) # (if c = [] then [] else [(''config'', c)])) = Inr out"
  shows "runHyperBeamInference rt w cfg (JStr p) (JStr c) =
     ([Log Info ''Sending inference request to HyperBEAM'',
       AxiosGet (inference_url cfg) ((''prompt'', p) # (if c = [] then [] else [(''config'', c)])) 120000],
      Returned out)"
  using assms by (cases "c = []") (simp_all add: runHyperBeamInference_def template_def preview_def io_simps)

lemma hb_pass_200:
  assumes pend: "getHBCache w (PoolProcess cfg) ''pending_taskcount'' = Inr n" "Number_positive rt n"
    and fetched: "requestHB w (PoolProcess cfg)
        [(''Action'', JStr ''Get-Pending-Task''), (''Nodeid'', JStr (NODE_ID cfg))] JUndefined = Inr msg"
    and noerr: "\<not> js_truthy (Error msg)"
    and first: "Messages msg = Some (first # rest)" "Tags first = Some ts"
    and code: "map_option value (find (\<lambda>t. name t = ''Code'') (rev ts)) = Some ''200''"
    and payload: "Data first = Some payload"
      "JSON_parse rt payload = Inr (JObj [(''ref'', JStr ''t1''), (''prompt'', JStr ''hi'')])"
    and conf: "JSON_stringify rt (Plain (JObj [(''n_gpu_layers'', JNum 48), (''ctx_size'', JNum 20480)])) = Inr (Some c)"
    and inferred: "axios_get w (inference_url cfg)
        ((''prompt'', ''hi'') # (if c = [] then [] else [(''config'', c)])) = Inr out"
  shows "main_iteration rt cfg w =
    ([Log Debug ''Requesting pending task from Pool...'',
      GetHBCache (PoolProcess cfg) ''pending_taskcount'',
      RequestHB (PoolProcess cfg)
        [(''Action'', JStr ''Get-Pending-Task''), (''Nodeid'', JStr (NODE_ID cfg))] JUndefined,
      Log Info ''Received task t1'',
      Log Info ''Processing task t1 with HyperBEAM'',
      Log Info ''Sending inference request to HyperBEAM'',
      AxiosGet (inference_url cfg)
        ((''prompt'', ''hi'') # (if c = [] then [] else [(''config'', c)])) 120000,
      Log Info ''Task t1 completed, sending response...'',
      RequestHB (PoolProcess cfg)
        [(''Action'', JStr ''Task-Response''), (''X-Oracle-Node-Id'', JStr (NODE_ID cfg)),
         (''X-Reference'', JStr ''t1'')]
        (JObj [(''output'', out)])]
     @ (case requestHB w (PoolProcess cfg)
               [(''Action'', JStr ''Task-Response''), (''X-Oracle-Node-Id'', JStr (NODE_ID cfg)),
                (''X-Reference'', JStr ''t1'')]
               (JObj [(''output'', out)]) of
          Inr r \<Rightarrow> [Log Info ''Task t1 response sent successfully'', SetTimeout (POLL_INTERVAL cfg)]
        | Inl e \<Rightarrow> [Log Err ''Error in main loop'', SetTimeout (POLL_INTERVAL cfg)]),
     Returned ())"
proof -
  have p: "hasPendingTask rt w cfg = ([GetHBCache (PoolProcess cfg) ''pending_taskcount''], Returned True)"
    by (rule hasPendingTask_positive[OF pend])
  have c200: "reduce_tags ts ''Code'' = Some ''200''" by (rule code_lookup[OF code])
  have r: "receiveTask rt w cfg (NODE_ID cfg) =
     ([RequestHB (PoolProcess cfg) [(''Action'', JStr ''Get-Pending-Task''), (''Nodeid'', JStr (NODE_ID cfg))] JUndefined],
      Returned (JObj [(''ref'', JStr ''t1''), (''prompt'', JStr ''hi'')]))"
    by (simp add: receiveTask_dispatch[OF fetched noerr first] c200 json_parse_data_def payload)
  have dc: "default_config rt = Inr (JStr c)" by (simp add: default_config_def conf)
  have inf: "runHyperBeamInference rt w cfg (JStr ''hi'') (JStr c) =
     ([Log Info ''Sending inference request to HyperBEAM'',
       AxiosGet (inference_url cfg) ((''prompt'', ''hi'') # (if c = [] then [] else [(''config'', c)])) 120000],
      Returned out)"
    by (rule inference_hb[OF inferred])
  show ?thesis
    by (cases "requestHB w (PoolProcess cfg)
               [(''Action'', JStr ''Task-Response''), (''X-Oracle-Node-Id'', JStr (NODE_ID cfg)),
                (''X-Reference'', JStr ''t1'')]
               (JObj [(''output'', out)])")
       (simp_all add: main_iteration_def p r dc inf sendTaskResponse_def template_def preview_def io_simps)
qed

lemma ao_pass_200:
  assumes checked: "dryRun rt w (poolProcess cfg) [(''Action'', Plain (JStr ''Has-Pending-Task''))] (Plain JNull) True
         = (trc, Returned rc)"
    and pending: "tags_or_empty rc ''Code'' \<noteq> Some ''204''"
    and fetched: "sendMessage rt w (poolProcess cfg)
           [(''Action'', Plain (JStr ''Get-Pending-Task'')), (''NodeID'', Plain (JStr (NODE_ID cfg)))]
           (Plain JNull) True = (trf, Returned rf)"
    and first: "Messages rf = Some (first # rest)" "Tags first = Some ts"
    and code: "map_option value (find (\<lambda>t. name t = ''Code'') (rev ts)) = Some ''200''"
    and payload: "Data first = Some payload"
      "JSON_parse rt payload = Inr (JObj [(''ref'', JStr ''t1''), (''prompt'', JStr ''hi'')])"
    and inferred: "axios_get w (inference_url cfg) [(''prompt'', ''hi'')] = Inr out"
    and body: "toString rt (Plain (JObj [(''output'', out)])) = Inr d"
  shows "\<exists>trs. fst (main_iteration_ao rt cfg w) =
    Log Debug ''Requesting pending task from Pool...'' # trc @ trf
    @ [Log Info ''Received task t1'',
       Log Info ''Processing task t1 with HyperBEAM'',
       Log Info ''Sending inference request to HyperBEAM'',
       AxiosGet (inference_url cfg) [(''prompt'', ''hi'')] 120000,
       Log Info ''Task t1 completed, sending response...'',
       Message \<lparr>process = POOL_PROCESS_ID cfg, data = d,
                tags = [\<lparr>name = ''Action'', value = JStr ''Task-Response''\<rparr>,
                        \<lparr>name = ''X-Oracle-Node-Id'', value = JStr (NODE_ID cfg)\<rparr>,
                        \<lparr>name = ''X-Reference'', value = JStr ''t1''\<rparr>],
                Owner = None\<rparr>] @ trs"
proof -
  let ?opts = "\<lparr>process = POOL_PROCESS_ID cfg, data = d,
                tags = [\<lparr>name = ''Action'', value = JStr ''Task-Response''\<rparr>,
                        \<lparr>name = ''X-Oracle-Node-Id'', value = JStr (NODE_ID cfg)\<rparr>,
                        \<lparr>name = ''X-Reference'', value = JStr ''t1''\<rparr>],
                Owner = None\<rparr>"
  have c200: "tags_or_empty rf ''Code'' = Some ''200''"
    by (simp add: tags_or_empty_first[OF first] code_lookup[OF code])
  have td: "getDataFromMessage rt (Some rf) 0 = Inr (JObj [(''ref'', JStr ''t1''), (''prompt'', JStr ''hi'')])"
    by (rule getDataFromMessage_first[OF first(1) payload])
  have inf: "runHyperBeamInference_ao rt w cfg (JStr ''hi'') JUndefined =
     ([Log Info ''Sending inference request to HyperBEAM'',
       AxiosGet (inference_url cfg) [(''prompt'', ''hi'')] 120000], Returned out)"
    by (rule inference_ao_plain[OF inferred])
  obtain trm rs where sub: "sendMessage rt w (poolProcess cfg)
                  [(''Action'', Plain (JStr ''Task-Response'')),
                   (''X-Oracle-Node-Id'', Plain (JStr (NODE_ID cfg))),
                   (''X-Reference'', Plain (JStr ''t1''))]
                  (Plain (JObj [(''output'', out)])) True = (Message ?opts # trm, rs)"
    using execute_message_starts[OF submit_envelope[OF body, of cfg "''t1''"], of w True]
    unfolding sendMessage_def by (metis prod.collapse)
  have pt: "\<exists>trs r. process_task rt cfg w rf =
     ([Log Info ''Received task t1'',
       Log Info ''Processing task t1 with HyperBEAM'',
       Log Info ''Sending inference request to HyperBEAM'',
       AxiosGet (inference_url cfg) [(''prompt'', ''hi'')] 120000,
       Log Info ''Task t1 completed, sending response...'',
       Message ?opts] @ trs, r)"
    by (cases rs) (simp_all add: process_task_def td inf sub template_def preview_def io_simps)
  then obtain trs r where pt': "process_task rt cfg w rf =
     ([Log Info ''Received task t1'',
       Log Info ''Processing task t1 with HyperBEAM'',
       Log Info ''Sending inference request to HyperBEAM'',
       AxiosGet (inference_url cfg) [(''prompt'', ''hi'')] 120000,
       Log Info ''Task t1 completed, sending response...'',
       Message ?opts] @ trs, r)" by blast
  show ?thesis
    by (cases r) (simp_all add: main_iteration_ao_def checked pending fetched c200 pt' io_simps)
qed

lemma hb_pass_403:
  assumes pend: "getHBCache w (PoolProcess cfg) ''pending_taskcount'' = Inr n" "Number_positive rt n"
    and fetched: "requestHB w (PoolProcess cfg)
        [(''Action'', JStr ''Get-Pending-Task''), (''Nodeid'', JStr (NODE_ID cfg))] JUndefined = Inr msg"
    and noerr: "\<not> js_truthy (Error msg)"
    and first: "Messages msg = Some (first # rest)" "Tags first = Some ts"
    and code: "map_option value (find (\<lambda>t. name t = ''Code'') (rev ts)) = Some ''403''"
  shows "receiveTask rt w cfg (NODE_ID cfg) =
     ([RequestHB (PoolProcess cfg) [(''Action'', JStr ''Get-Pending-Task''), (''Nodeid'', JStr (NODE_ID cfg))] JUndefined],
      Threw (JsTypeError ''msg.Error is not a function''))"
    and "main_iteration rt cfg w =
          ([Log Debug ''Requesting pending task from Pool...'',
            GetHBCache (PoolProcess cfg) ''pending_taskcount'',
            RequestHB (PoolProcess cfg)
              [(''Action'', JStr ''Get-Pending-Task''), (''Nodeid'', JStr (NODE_ID cfg))] JUndefined,
            Log Err ''Error in main loop'',
            SetTimeout (POLL_INTERVAL cfg)], Returned ())"
proof -
  have p: "hasPendingTask rt w cfg = ([GetHBCache (PoolProcess cfg) ''pending_taskcount''], Returned True)"
    by (rule hasPendingTask_positive[OF pend])
  have c: "reduce_tags ts ''Code'' = Some ''403''" by (rule code_lookup[OF code])
  show r: "receiveTask rt w cfg (NODE_ID cfg) =
     ([RequestHB (PoolProcess cfg) [(''Action'', JStr ''Get-Pending-Task''), (''Nodeid'', JStr (NODE_ID cfg))] JUndefined],
      Threw (JsTypeError ''msg.Error is not a function''))"
    by (simp add: receiveTask_dispatch[OF fetched noerr first] c)
  show "main_iteration rt cfg w =
          ([Log Debug ''Requesting pending task from Pool...'',
            GetHBCache (PoolProcess cfg) ''pending_taskcount'',
            RequestHB (PoolProcess cfg)
              [(''Action'', JStr ''Get-Pending-Task''), (''Nodeid'', JStr (NODE_ID cfg))] JUndefined,
            Log Err ''Error in main loop'',
            SetTimeout (POLL_INTERVAL cfg)], Returned ())"
    by (simp add: main_iteration_def p r io_simps)
qed

lemma ao_pass_403:
  assumes checked: "dryRun rt w (poolProcess cfg) [(''Action'', Plain (JStr ''Has-Pending-Task''))] (Plain JNull) True
         = (trc, Returned rc)"
    and pending: "tags_or_empty rc ''Code'' \<noteq> Some ''204''"
    and fetched: "sendMessage rt w (poolProcess cfg)
           [(''Action'', Plain (JStr ''Get-Pending-Task'')), (''NodeID'', Plain (JStr (NODE_ID cfg)))]
           (Plain JNull) True = (trf, Returned rf)"
    and first: "Messages rf = Some (first # rest)" "Tags first = Some ts"
    and code: "map_option value (find (\<lambda>t. name t = ''Code'') (rev ts)) = Some ''403''"
  shows "main_iteration_ao rt cfg w =
     (Log Debug ''Requesting pending task from Pool...'' # trc @ trf
        @ [Log Err ''Oracle not authorized. Make sure this Node ID is registered in the Pool'',
           ProcessExit 1],
      Exited 1)"
proof -
  have c: "tags_or_empty rf ''Code'' = Some ''403''"
    by (simp add: tags_or_empty_first[OF first] code_lookup[OF code])
  show ?thesis
    by (simp add: main_iteration_ao_def checked pending fetched c io_simps)
qed



subsection \<open>The reference runtime and the scripted pool\<close>

lemma parse_task:
  \<open>JSON_parse node_rt ''{"ref":"t1","prompt":"hi"}'' = Inr (JObj [(''ref'', JStr ''t1''), (''prompt'', JStr ''hi'')])\<close>
  unfolding node_rt_def by (simp, code_simp)

lemma default_config_text:
  \<open>JSON_stringify node_rt (Plain (JObj [(''n_gpu_layers'', JNum 48), (''ctx_size'', JNum 20480)]))
     = Inr (Some ''{"n_gpu_layers":48,"ctx_size":20480}'')\<close>
proof -
  have \<open>json_text (JObj [(''n_gpu_layers'', JNum 48), (''ctx_size'', JNum 20480)])
      = Some ''{"n_gpu_layers":48,"ctx_size":20480}''\<close>
    by code_simp
  then show ?thesis
    by (simp add: node_rt_def node_JSON_stringify_def)
qed

lemma output_text:
  \<open>toString node_rt (Plain (JObj [(''output'', JStr ''42'')])) = Inr (JStr ''{"output":"42"}'')\<close>
proof -
  have \<open>json_text (JObj [(''output'', JStr ''42'')]) = Some ''{"output":"42"}''\<close>
    by code_simp
  then show ?thesis
    by (simp add: toString_def try_catch_def node_rt_def node_JSON_stringify_def)
qed

lemma null_text: "toString node_rt (Plain JNull) = Inr (JStr ''null'')"
  by (simp add: toString_def try_catch_def node_rt_def node_JSON_stringify_def)

lemma toString_string: "toString rt (Plain (JStr s)) = Inr (JStr s)"
  by (simp add: toString_def)

lemma check_envelope:
  "envelope node_rt (poolProcess cfg) [(''Action'', Plain (JStr ''Has-Pending-Task''))] (Plain JNull)
      = Inr \<lparr>process = POOL_PROCESS_ID cfg, data = JStr ''null'',
             tags = [\<lparr>name = ''Action'', value = JStr ''Has-Pending-Task''\<rparr>], Owner = None\<rparr>"
  by (simp add: envelope_def null_text toString_string poolProcess_def)

lemma fetch_envelope:
  "envelope node_rt (poolProcess cfg)
      [(''Action'', Plain (JStr ''Get-Pending-Task'')), (''NodeID'', Plain (JStr (NODE_ID cfg)))] (Plain JNull)
      = Inr \<lparr>process = POOL_PROCESS_ID cfg, data = JStr ''null'',
              tags = [\<lparr>name = ''Action'', value = JStr ''Get-Pending-Task''\<rparr>,
                      \<lparr>name = ''NodeID'', value = JStr (NODE_ID cfg)\<rparr>], Owner = None\<rparr>"
  by (simp add: envelope_def null_text toString_string poolProcess_def)

lemma reply_accepted:
  "handleResult rt (poolProcess cfg) msgType (reply [(''Code'', code)] d) tg dt True = ([], Returned ())"
  by (simp add: handleResult_def reply_def getTagsFromMessage_def at_index_def reduce_tags_def
      assign_def poolProcess_def io_simps)

lemma poolProcess_fields:
  "processId (poolProcess cfg) = POOL_PROCESS_ID cfg" "isDevEnvironment (poolProcess cfg) = False"
  by (simp_all add: poolProcess_def)

lemma check_call:
  "dryRun node_rt (pool_answers f) (poolProcess cfg)
     [(''Action'', Plain (JStr ''Has-Pending-Task''))] (Plain JNull) True =
   ([Dryrun \<lparr>process = POOL_PROCESS_ID cfg, data = JStr ''null'',
             tags = [\<lparr>name = ''Action'', value = JStr ''Has-Pending-Task''\<rparr>], Owner = None\<rparr>],
    Returned (reply [(''Code'', ''200'')] []))"
  by (simp add: dryRun_def execute_def check_envelope send_def pool_answers_def scripted_world_def
      reply_accepted io_simps poolProcess_fields)

lemma fetch_call:
  "sendMessage node_rt (pool_answers (reply [(''Code'', code)] d)) (poolProcess cfg)
     [(''Action'', Plain (JStr ''Get-Pending-Task'')), (''NodeID'', Plain (JStr (NODE_ID cfg)))]
     (Plain JNull) True =
   ([Message \<lparr>process = POOL_PROCESS_ID cfg, data = JStr ''null'',
              tags = [\<lparr>name = ''Action'', value = JStr ''Get-Pending-Task''\<rparr>,
                      \<lparr>name = ''NodeID'', value = JStr (NODE_ID cfg)\<rparr>], Owner = None\<rparr>,
     FetchResult ''Get-Pending-Task'' (POOL_PROCESS_ID cfg)],
    Returned (reply [(''Code'', code)] d))"
  by (simp add: sendMessage_def execute_def fetch_envelope send_def pool_answers_def scripted_world_def
      reply_accepted io_simps poolProcess_fields)

lemma checked_code: "tags_or_empty (reply [(''Code'', c)] d) ''Code'' = Some c"
  by (simp add: tags_or_empty_def getTagsFromMessage_def at_index_def reply_def reduce_tags_def assign_def)

section \<open>The fetch reply and what the loop does with it\<close>

text \<open>
  \<^bold>\<open>Claim C1\<close>. In the loop of src/index.ts a fetch reply whose first message carries
  \<^verbatim>\<open>Code\<close> 403 does not end the process. The branch of \<^verbatim>\<open>receiveTask\<close> reads
  \<^verbatim>\<open>return msg.Error("Oracle not authorized. ..."); process.exit(1);\<close>. It is reached only
  when \<^verbatim>\<open>msg.Error\<close> is falsy, so the call \<^verbatim>\<open>msg.Error(...)\<close> throws a \<^verbatim>\<open>TypeError\<close>, and
  the \<^verbatim>\<open>process.exit(1)\<close> behind the \<^verbatim>\<open>return\<close> is never run. The loop catches the
  \<^verbatim>\<open>TypeError\<close>, logs \<^verbatim>\<open>Error in main loop\<close>, waits \<open>POLL_INTERVAL\<close> milliseconds and goes
  on with the next pass: the authorization failure is retried for ever.
\<close>

theorem fetch_403_not_fatal:
  "getHBCache w (PoolProcess cfg) ''pending_taskcount'' = Inr n \<and> Number_positive rt n
    \<and> requestHB w (PoolProcess cfg)
        [(''Action'', JStr ''Get-Pending-Task''), (''Nodeid'', JStr (NODE_ID cfg))] JUndefined = Inr msg
    \<and> \<not> js_truthy (Error msg) \<and> Messages msg = Some (first # rest) \<and> Tags first = Some ts
    \<and> map_option value (find (\<lambda>t. name t = ''Code'') (rev ts)) = Some ''403''
    \<longrightarrow> receiveTask rt w cfg (NODE_ID cfg) =
          ([RequestHB (PoolProcess cfg)
              [(''Action'', JStr ''Get-Pending-Task''), (''Nodeid'', JStr (NODE_ID cfg))] JUndefined],
           Threw (JsTypeError ''msg.Error is not a function''))
      \<and> main_iteration rt cfg w =
          ([Log Debug ''Requesting pending task from Pool...'',
            GetHBCache (PoolProcess cfg) ''pending_taskcount'',
            RequestHB (PoolProcess cfg)
              [(''Action'', JStr ''Get-Pending-Task''), (''Nodeid'', JStr (NODE_ID cfg))] JUndefined,
            Log Err ''Error in main loop'',
            SetTimeout (POLL_INTERVAL cfg)], Returned ())
      \<and> main_loop (main_iteration rt cfg) (w # ws) =
          ([Log Debug ''Requesting pending task from Pool...'',
            GetHBCache (PoolProcess cfg) ''pending_taskcount'',
            RequestHB (PoolProcess cfg)
              [(''Action'', JStr ''Get-Pending-Task''), (''Nodeid'', JStr (NODE_ID cfg))] JUndefined,
            Log Err ''Error in main loop'',
            SetTimeout (POLL_INTERVAL cfg)] @ fst (main_loop (main_iteration rt cfg) ws),
           snd (main_loop (main_iteration rt cfg) ws))"
proof (intro impI)
  assume h: "getHBCache w (PoolProcess cfg) ''pending_taskcount'' = Inr n \<and> Number_positive rt n
    \<and> requestHB w (PoolProcess cfg)
        [(''Action'', JStr ''Get-Pending-Task''), (''Nodeid'', JStr (NODE_ID cfg))] JUndefined = Inr msg
    \<and> \<not> js_truthy (Error msg) \<and> Messages msg = Some (first # rest) \<and> Tags first = Some ts
    \<and> map_option value (find (\<lambda>t. name t = ''Code'') (rev ts)) = Some ''403''"
  have r: "receiveTask rt w cfg (NODE_ID cfg) =
          ([RequestHB (PoolProcess cfg)
              [(''Action'', JStr ''Get-Pending-Task''), (''Nodeid'', JStr (NODE_ID cfg))] JUndefined],
           Threw (JsTypeError ''msg.Error is not a function''))"
    using h by (intro hb_pass_403(1)[where n = n and msg = msg and first = first and rest = rest and ts = ts])
      blast+
  have p: "main_iteration rt cfg w =
          ([Log Debug ''Requesting pending task from Pool...'',
            GetHBCache (PoolProcess cfg) ''pending_taskcount'',
            RequestHB (PoolProcess cfg)
              [(''Action'', JStr ''Get-Pending-Task''), (''Nodeid'', JStr (NODE_ID cfg))] JUndefined,
            Log Err ''Error in main loop'',
            SetTimeout (POLL_INTERVAL cfg)], Returned ())"
    using h by (intro hb_pass_403(2)[where n = n and msg = msg and first = first and rest = rest and ts = ts])
      blast+
  have l: "main_loop (main_iteration rt cfg) (w # ws) =
          ([Log Debug ''Requesting pending task from Pool...'',
            GetHBCache (PoolProcess cfg) ''pending_taskcount'',
            RequestHB (PoolProcess cfg)
              [(''Action'', JStr ''Get-Pending-Task''), (''Nodeid'', JStr (NODE_ID cfg))] JUndefined,
            Log Err ''Error in main loop'',
            SetTimeout (POLL_INTERVAL cfg)] @ fst (main_loop (main_iteration rt cfg) ws),
           snd (main_loop (main_iteration rt cfg) ws))"
    by (simp add: p io_simps)
  from r p l show "receiveTask rt w cfg (NODE_ID cfg) =
          ([RequestHB (PoolProcess cfg)
              [(''Action'', JStr ''Get-Pending-Task''), (''Nodeid'', JStr (NODE_ID cfg))] JUndefined],
           Threw (JsTypeError ''msg.Error is not a function''))
      \<and> main_iteration rt cfg w =
          ([Log Debug ''Requesting pending task from Pool...'',
            GetHBCache (PoolProcess cfg) ''pending_taskcount'',
            RequestHB (PoolProcess cfg)
              [(''Action'', JStr ''Get-Pending-Task''), (''Nodeid'', JStr (NODE_ID cfg))] JUndefined,
            Log Err ''Error in main loop'',
            SetTimeout (POLL_INTERVAL cfg)], Returned ())
      \<and> main_loop (main_iteration rt cfg) (w # ws) =
          ([Log Debug ''Requesting pending task from Pool...'',
            GetHBCache (PoolProcess cfg) ''pending_taskcount'',
            RequestHB (PoolProcess cfg)
              [(''Action'', JStr ''Get-Pending-Task''), (''Nodeid'', JStr (NODE_ID cfg))] JUndefined,
            Log Err ''Error in main loop'',
            SetTimeout (POLL_INTERVAL cfg)] @ fst (main_loop (main_iteration rt cfg) ws),
           snd (main_loop (main_iteration rt cfg) ws))"
    by (intro conjI)
qed

text \<open>The program run for two passes against a pool that answers every fetch with
  \<^verbatim>\<open>Code\<close> 403: it fetches twice, waits twice, and has not exited.\<close>

theorem fetch_403_not_fatal_witness:
  "main node_rt sample_config
      [pool_answers (reply [(''Code'', ''403'')] []), pool_answers (reply [(''Code'', ''403'')] [])] =
     ([Log Info ''Starting ANPM Oracle'',
       Log Debug ''Requesting pending task from Pool...'',
       GetHBCache ''pool'' ''pending_taskcount'',
       RequestHB ''pool'' [(''Action'', JStr ''Get-Pending-Task''), (''Nodeid'', JStr ''node-1'')] JUndefined,
       Log Err ''Error in main loop'',
       SetTimeout 1000,
       Log Debug ''Requesting pending task from Pool...'',
       GetHBCache ''pool'' ''pending_taskcount'',
       RequestHB ''pool'' [(''Action'', JStr ''Get-Pending-Task''), (''Nodeid'', JStr ''node-1'')] JUndefined,
       Log Err ''Error in main loop'',
       SetTimeout 1000], Returned ())"
proof -
  let ?w = "pool_answers (reply [(''Code'', ''403'')] [])"
  let ?first = "\<lparr>Tags = Some [\<lparr>name = ''Code'', value = ''403''\<rparr>], Data = Some []\<rparr>"
  have hb: "getHBCache ?w (PoolProcess sample_config) ''pending_taskcount'' = Inr (JNum 1)
      \<and> Number_positive node_rt (JNum 1)
      \<and> requestHB ?w (PoolProcess sample_config)
          [(''Action'', JStr ''Get-Pending-Task''), (''Nodeid'', JStr (NODE_ID sample_config))] JUndefined
          = Inr (reply [(''Code'', ''403'')] [])
      \<and> \<not> js_truthy (Error (reply [(''Code'', ''403'')] []))
      \<and> Messages (reply [(''Code'', ''403'')] []) = Some (?first # [])
      \<and> Tags ?first = Some [\<lparr>name = ''Code'', value = ''403''\<rparr>]
      \<and> map_option value (find (\<lambda>t. name t = ''Code'') (rev [\<lparr>name = ''Code'', value = ''403''\<rparr>])) = Some ''403''"
    by (simp add: pool_answers_def scripted_world_def reply_def node_rt_def node_Number_positive_def)
  note pass = fetch_403_not_fatal[THEN mp, OF hb, THEN conjunct2, THEN conjunct1]
  show ?thesis
    by (simp add: main_def pass io_simps) (simp add: sample_config_def PoolProcess_def)
qed

text \<open>
  \<^bold>\<open>Property X1\<close>. The AOProcess-based loop, on the same reply, does what the branch was meant to do: it logs
  the authorization failure and exits with code 1, without waiting, without submitting, and
  without a further pass, whatever the worlds of the later passes would answer.
\<close>

theorem fetch_403_fatal_ao:
  "dryRun rt w (poolProcess cfg) [(''Action'', Plain (JStr ''Has-Pending-Task''))] (Plain JNull) True
         = (trc, Returned rc)
       \<and> tags_or_empty rc ''Code'' \<noteq> Some ''204''
       \<and> sendMessage rt w (poolProcess cfg)
           [(''Action'', Plain (JStr ''Get-Pending-Task'')), (''NodeID'', Plain (JStr (NODE_ID cfg)))]
           (Plain JNull) True = (trf, Returned rf)
       \<and> Messages rf = Some (firstf # restf) \<and> Tags firstf = Some tsf
       \<and> map_option value (find (\<lambda>t. name t = ''Code'') (rev tsf)) = Some ''403''
   \<longrightarrow> main_loop (main_iteration_ao rt cfg) (w # ws) =
         (Log Debug ''Requesting pending task from Pool...'' # trc @ trf
            @ [Log Err ''Oracle not authorized. Make sure this Node ID is registered in the Pool'',
               ProcessExit 1],
          Exited 1)"
proof
  assume "dryRun rt w (poolProcess cfg) [(''Action'', Plain (JStr ''Has-Pending-Task''))] (Plain JNull) True
         = (trc, Returned rc)
       \<and> tags_or_empty rc ''Code'' \<noteq> Some ''204''
       \<and> sendMessage rt w (poolProcess cfg)
           [(''Action'', Plain (JStr ''Get-Pending-Task'')), (''NodeID'', Plain (JStr (NODE_ID cfg)))]
           (Plain JNull) True = (trf, Returned rf)
       \<and> Messages rf = Some (firstf # restf) \<and> Tags firstf = Some tsf
       \<and> map_option value (find (\<lambda>t. name t = ''Code'') (rev tsf)) = Some ''403''"
  then have "main_iteration_ao rt cfg w =
         (Log Debug ''Requesting pending task from Pool...'' # trc @ trf
            @ [Log Err ''Oracle not authorized. Make sure this Node ID is registered in the Pool'',
               ProcessExit 1],
          Exited 1)"
    by (intro ao_pass_403[where rc = rc and rf = rf and first = firstf and rest = restf and ts = tsf])
      blast+
  then show "main_loop (main_iteration_ao rt cfg) (w # ws) =
         (Log Debug ''Requesting pending task from Pool...'' # trc @ trf
            @ [Log Err ''Oracle not authorized. Make sure this Node ID is registered in the Pool'',
               ProcessExit 1],
          Exited 1)"
    by (simp add: io_simps)
qed

text \<open>The AOProcess-based program against the same pool: one fetch, then exit code 1.\<close>

theorem fetch_403_fatal_ao_witness:
  "main_ao node_rt sample_config
      [pool_answers (reply [(''Code'', ''403'')] []), pool_answers (reply [(''Code'', ''403'')] [])] =
     ([Log Info ''Starting ANPM Oracle'',
       Log Debug ''Requesting pending task from Pool...'',
       Dryrun \<lparr>process = ''pool'', data = JStr ''null'',
               tags = [\<lparr>name = ''Action'', value = JStr ''Has-Pending-Task''\<rparr>], Owner = None\<rparr>,
       Message \<lparr>process = ''pool'', data = JStr ''null'',
                tags = [\<lparr>name = ''Action'', value = JStr ''Get-Pending-Task''\<rparr>,
                        \<lparr>name = ''NodeID'', value = JStr ''node-1''\<rparr>], Owner = None\<rparr>,
       FetchResult ''Get-Pending-Task'' ''pool'',
       Log Err ''Oracle not authorized. Make sure this Node ID is registered in the Pool'',
       ProcessExit 1], Exited 1)"
proof -
  let ?w = "pool_answers (reply [(''Code'', ''403'')] [])"
  let ?first = "\<lparr>Tags = Some [\<lparr>name = ''Code'', value = ''403''\<rparr>], Data = Some []\<rparr>"
  have ao1: "dryRun node_rt ?w (poolProcess sample_config) [(''Action'', Plain (JStr ''Has-Pending-Task''))] (Plain JNull) True
         = ([Dryrun \<lparr>process = POOL_PROCESS_ID sample_config, data = JStr ''null'',
                     tags = [\<lparr>name = ''Action'', value = JStr ''Has-Pending-Task''\<rparr>], Owner = None\<rparr>],
            Returned (reply [(''Code'', ''200'')] []))"
    by (rule check_call)
  have ao2: "tags_or_empty (reply [(''Code'', ''200'')] []) ''Code'' \<noteq> Some ''204''"
    by (simp add: checked_code)
  have ao3: "sendMessage node_rt ?w (poolProcess sample_config)
           [(''Action'', Plain (JStr ''Get-Pending-Task'')), (''NodeID'', Plain (JStr (NODE_ID sample_config)))]
           (Plain JNull) True
         = ([Message \<lparr>process = POOL_PROCESS_ID sample_config, data = JStr ''null'',
                      tags = [\<lparr>name = ''Action'', value = JStr ''Get-Pending-Task''\<rparr>,
                              \<lparr>name = ''NodeID'', value = JStr (NODE_ID sample_config)\<rparr>], Owner = None\<rparr>,
             FetchResult ''Get-Pending-Task'' (POOL_PROCESS_ID sample_config)],
            Returned (reply [(''Code'', ''403'')] []))"
    by (rule fetch_call)
  have ao4: "Messages (reply [(''Code'', ''403'')] []) = Some (?first # [])
       \<and> Tags ?first = Some [\<lparr>name = ''Code'', value = ''403''\<rparr>]
       \<and> map_option value (find (\<lambda>t. name t = ''Code'') (rev [\<lparr>name = ''Code'', value = ''403''\<rparr>])) = Some ''403''"
    by (simp add: reply_def)
  note ao = conjI[OF ao1 conjI[OF ao2 conjI[OF ao3 ao4]]]
  note run = fetch_403_fatal_ao[THEN mp, OF ao, of "[?w]"]
  have pid: "POOL_PROCESS_ID sample_config = ''pool''"
    by (simp add: sample_config_def)
  show ?thesis
    by (simp add: main_ao_def run pid io_simps del: main_loop.simps) (simp add: sample_config_def)
qed





text \<open>
  \<^bold>\<open>Claim C4\<close>. A fetch reply whose first message carries \<^verbatim>\<open>Code\<close> 200 and whose data
  parses to the task \<^verbatim>\<open>{"ref":"t1","prompt":"hi"}\<close>: after the fetch the pass calls the
  inference endpoint with prompt \<^verbatim>\<open>hi\<close> and, when the inference answers \<open>out\<close>, issues the
  submission with reference \<^verbatim>\<open>t1\<close> and that output; the three calls occur in this order
  in the trace, and nothing but log lines lies between them. In the loop of src/index.ts the
  inference carries the default configuration as well (the task has none), and the trace is
  given in full; in the AOProcess-based loop the trace is given up to the submission, what
  follows being the fetch of its result.
\<close>

theorem fetch_200_infer_submit:
  "(getHBCache w (PoolProcess cfg) ''pending_taskcount'' = Inr n \<and> Number_positive rt n
    \<and> requestHB w (PoolProcess cfg)
        [(''Action'', JStr ''Get-Pending-Task''), (''Nodeid'', JStr (NODE_ID cfg))] JUndefined = Inr msg
    \<and> \<not> js_truthy (Error msg) \<and> Messages msg = Some (first # rest) \<and> Tags first = Some ts
    \<and> map_option value (find (\<lambda>t. name t = ''Code'') (rev ts)) = Some ''200''
    \<and> Data first = Some payload
    \<and> JSON_parse rt payload = Inr (JObj [(''ref'', JStr ''t1''), (''prompt'', JStr ''hi'')])
    \<and> JSON_stringify rt (Plain (JObj [(''n_gpu_layers'', JNum 48), (''ctx_size'', JNum 20480)])) = Inr (Some c)
    \<and> axios_get w (inference_url cfg)
        ((''prompt'', ''hi'') # (if c = [] then [] else [(''config'', c)])) = Inr out
    \<longrightarrow> main_iteration rt cfg w =
          ([Log Debug ''Requesting pending task from Pool...'',
            GetHBCache (PoolProcess cfg) ''pending_taskcount'',
            RequestHB (PoolProcess cfg)
              [(''Action'', JStr ''Get-Pending-Task''), (''Nodeid'', JStr (NODE_ID cfg))] JUndefined,
            Log Info ''Received task t1'',
            Log Info ''Processing task t1 with HyperBEAM'',
            Log Info ''Sending inference request to HyperBEAM'',
            AxiosGet (inference_url cfg)
              ((''prompt'', ''hi'') # (if c = [] then [] else [(''config'', c)])) 120000,
            Log Info ''Task t1 completed, sending response...'',
            RequestHB (PoolProcess cfg)
              [(''Action'', JStr ''Task-Response''), (''X-Oracle-Node-Id'', JStr (NODE_ID cfg)),
               (''X-Reference'', JStr ''t1'')]
              (JObj [(''output'', out)])]
           @ (case requestHB w (PoolProcess cfg)
                     [(''Action'', JStr ''Task-Response''), (''X-Oracle-Node-Id'', JStr (NODE_ID cfg)),
                      (''X-Reference'', JStr ''t1'')]
                     (JObj [(''output'', out)]) of
                Inr r \<Rightarrow> [Log Info ''Task t1 response sent successfully'', SetTimeout (POLL_INTERVAL cfg)]
              | Inl e \<Rightarrow> [Log Err ''Error in main loop'', SetTimeout (POLL_INTERVAL cfg)]),
           Returned ()))
   \<and> (dryRun rt w (poolProcess cfg) [(''Action'', Plain (JStr ''Has-Pending-Task''))] (Plain JNull) True
         = (trc, Returned rc)
       \<and> tags_or_empty rc ''Code'' \<noteq> Some ''204''
       \<and> sendMessage rt w (poolProcess cfg)
           [(''Action'', Plain (JStr ''Get-Pending-Task'')), (''NodeID'', Plain (JStr (NODE_ID cfg)))]
           (Plain JNull) True = (trf, Returned rf)
       \<and> Messages rf = Some (firstf # restf) \<and> Tags firstf = Some tsf
       \<and> map_option value (find (\<lambda>t. name t = ''Code'') (rev tsf)) = Some ''200''
       \<and> Data firstf = Some payloadf
       \<and> JSON_parse rt payloadf = Inr (JObj [(''ref'', JStr ''t1''), (''prompt'', JStr ''hi'')])
       \<and> axios_get w (inference_url cfg) [(''prompt'', ''hi'')] = Inr outf
       \<and> toString rt (Plain (JObj [(''output'', outf)])) = Inr d
       \<longrightarrow> (\<exists>trs. fst (main_iteration_ao rt cfg w) =
              Log Debug ''Requesting pending task from Pool...'' # trc @ trf
              @ [Log Info ''Received task t1'',
                 Log Info ''Processing task t1 with HyperBEAM'',
                 Log Info ''Sending inference request to HyperBEAM'',
                 AxiosGet (inference_url cfg) [(''prompt'', ''hi'')] 120000,
                 Log Info ''Task t1 completed, sending response...'',
                 Message \<lparr>process = POOL_PROCESS_ID cfg, data = d,
                          tags = [\<lparr>name = ''Action'', value = JStr ''Task-Response''\<rparr>,
                                  \<lparr>name = ''X-Oracle-Node-Id'', value = JStr (NODE_ID cfg)\<rparr>,
                                  \<lparr>name = ''X-Reference'', value = JStr ''t1''\<rparr>],
                          Owner = None\<rparr>] @ trs))"
proof (intro conjI impI)
  assume "getHBCache w (PoolProcess cfg) ''pending_taskcount'' = Inr n \<and> Number_positive rt n
    \<and> requestHB w (PoolProcess cfg)
        [(''Action'', JStr ''Get-Pending-Task''), (''Nodeid'', JStr (NODE_ID cfg))] JUndefined = Inr msg
    \<and> \<not> js_truthy (Error msg) \<and> Messages msg = Some (first # rest) \<and> Tags first = Some ts
    \<and> map_option value (find (\<lambda>t. name t = ''Code'') (rev ts)) = Some ''200''
    \<and> Data first = Some payload
    \<and> JSON_parse rt payload = Inr (JObj [(''ref'', JStr ''t1''), (''prompt'', JStr ''hi'')])
    \<and> JSON_stringify rt (Plain (JObj [(''n_gpu_layers'', JNum 48), (''ctx_size'', JNum 20480)])) = Inr (Some c)
    \<and> axios_get w (inference_url cfg)
        ((''prompt'', ''hi'') # (if c = [] then [] else [(''config'', c)])) = Inr out"
  then show "main_iteration rt cfg w =
          ([Log Debug ''Requesting pending task from Pool...'',
            GetHBCache (PoolProcess cfg) ''pending_taskcount'',
            RequestHB (PoolProcess cfg)
              [(''Action'', JStr ''Get-Pending-Task''), (''Nodeid'', JStr (NODE_ID cfg))] JUndefined,
            Log Info ''Received task t1'',
            Log Info ''Processing task t1 with HyperBEAM'',
            Log Info ''Sending inference request to HyperBEAM'',
            AxiosGet (inference_url cfg)
              ((''prompt'', ''hi'') # (if c = [] then [] else [(''config'', c)])) 120000,
            Log Info ''Task t1 completed, sending response...'',
            RequestHB (PoolProcess cfg)
              [(''Action'', JStr ''Task-Response''), (''X-Oracle-Node-Id'', JStr (NODE_ID cfg)),
               (''X-Reference'', JStr ''t1'')]
              (JObj [(''output'', out)])]
           @ (case requestHB w (PoolProcess cfg)
                     [(''Action'', JStr ''Task-Response''), (''X-Oracle-Node-Id'', JStr (NODE_ID cfg)),
                      (''X-Reference'', JStr ''t1'')]
                     (JObj [(''output'', out)]) of
                Inr r \<Rightarrow> [Log Info ''Task t1 response sent successfully'', SetTimeout (POLL_INTERVAL cfg)]
              | Inl e \<Rightarrow> [Log Err ''Error in main loop'', SetTimeout (POLL_INTERVAL cfg)]),
           Returned ())"
    by (intro hb_pass_200[where n = n and msg = msg and first = first and rest = rest and ts = ts
          and payload = payload]) blast+
next
  assume "dryRun rt w (poolProcess cfg) [(''Action'', Plain (JStr ''Has-Pending-Task''))] (Plain JNull) True
         = (trc, Returned rc)
       \<and> tags_or_empty rc ''Code'' \<noteq> Some ''204''
       \<and> sendMessage rt w (poolProcess cfg)
           [(''Action'', Plain (JStr ''Get-Pending-Task'')), (''NodeID'', Plain (JStr (NODE_ID cfg)))]
           (Plain JNull) True = (trf, Returned rf)
       \<and> Messages rf = Some (firstf # restf) \<and> Tags firstf = Some tsf
       \<and> map_option value (find (\<lambda>t. name t = ''Code'') (rev tsf)) = Some ''200''
       \<and> Data firstf = Some payloadf
       \<and> JSON_parse rt payloadf = Inr (JObj [(''ref'', JStr ''t1''), (''prompt'', JStr ''hi'')])
       \<and> axios_get w (inference_url cfg) [(''prompt'', ''hi'')] = Inr outf
       \<and> toString rt (Plain (JObj [(''output'', outf)])) = Inr d"
  then show "\<exists>trs. fst (main_iteration_ao rt cfg w) =
              Log Debug ''Requesting pending task from Pool...'' # trc @ trf
              @ [Log Info ''Received task t1'',
                 Log Info ''Processing task t1 with HyperBEAM'',
                 Log Info ''Sending inference request to HyperBEAM'',
                 AxiosGet (inference_url cfg) [(''prompt'', ''hi'')] 120000,
                 Log Info ''Task t1 completed, sending response...'',
                 Message \<lparr>process = POOL_PROCESS_ID cfg, data = d,
                          tags = [\<lparr>name = ''Action'', value = JStr ''Task-Response''\<rparr>,
                                  \<lparr>name = ''X-Oracle-Node-Id'', value = JStr (NODE_ID cfg)\<rparr>,
                                  \<lparr>name = ''X-Reference'', value = JStr ''t1''\<rparr>],
                          Owner = None\<rparr>] @ trs"
    by (intro ao_pass_200[where rc = rc and rf = rf and first = firstf and rest = restf and ts = tsf
          and payload = payloadf and out = outf]) blast+
qed

text \<open>Both pollers on a pool that answers the fetch with the task and whose inference
  service answers \<^verbatim>\<open>42\<close>.\<close>

theorem fetch_200_infer_submit_witness:
  \<open>main_iteration node_rt sample_config
       (pool_answers (reply [(''Code'', ''200'')] ''{"ref":"t1","prompt":"hi"}'')) =
     ([Log Debug ''Requesting pending task from Pool...'',
       GetHBCache ''pool'' ''pending_taskcount'',
       RequestHB ''pool'' [(''Action'', JStr ''Get-Pending-Task''), (''Nodeid'', JStr ''node-1'')] JUndefined,
       Log Info ''Received task t1'',
       Log Info ''Processing task t1 with HyperBEAM'',
       Log Info ''Sending inference request to HyperBEAM'',
       AxiosGet ''http://localhost:10000/~wasi-nn@1.0/run_inference_http''
         [(''prompt'', ''hi''), (''config'', ''{"n_gpu_layers":48,"ctx_size":20480}'')] 120000,
       Log Info ''Task t1 completed, sending response...'',
       RequestHB ''pool''
         [(''Action'', JStr ''Task-Response''), (''X-Oracle-Node-Id'', JStr ''node-1''),
          (''X-Reference'', JStr ''t1'')]
         (JObj [(''output'', JStr ''42'')]),
       Log Info ''Task t1 response sent successfully'',
       SetTimeout 1000], Returned ())
   \<and> (\<exists>trs. fst (main_iteration_ao node_rt sample_config
                   (pool_answers (reply [(''Code'', ''200'')] ''{"ref":"t1","prompt":"hi"}''))) =
        [Log Debug ''Requesting pending task from Pool...'',
         Dryrun \<lparr>process = ''pool'', data = JStr ''null'',
                 tags = [\<lparr>name = ''Action'', value = JStr ''Has-Pending-Task''\<rparr>], Owner = None\<rparr>,
         Message \<lparr>process = ''pool'', data = JStr ''null'',
                  tags = [\<lparr>name = ''Action'', value = JStr ''Get-Pending-Task''\<rparr>,
                          \<lparr>name = ''NodeID'', value = JStr ''node-1''\<rparr>], Owner = None\<rparr>,
         FetchResult ''Get-Pending-Task'' ''pool'',
         Log Info ''Received task t1'',
         Log Info ''Processing task t1 with HyperBEAM'',
         Log Info ''Sending inference request to HyperBEAM'',
         AxiosGet ''http://localhost:10000/~wasi-nn@1.0/run_inference_http'' [(''prompt'', ''hi'')] 120000,
         Log Info ''Task t1 completed, sending response...'',
         Message \<lparr>process = ''pool'', data = JStr ''{"output":"42"}'',
                  tags = [\<lparr>name = ''Action'', value = JStr ''Task-Response''\<rparr>,
                          \<lparr>name = ''X-Oracle-Node-Id'', value = JStr ''node-1''\<rparr>,
                          \<lparr>name = ''X-Reference'', value = JStr ''t1''\<rparr>],
                  Owner = None\<rparr>] @ trs)\<close>
proof -
  let ?r = \<open>reply [(''Code'', ''200'')] ''{"ref":"t1","prompt":"hi"}''\<close>
  let ?w = "pool_answers ?r"
  let ?first = \<open>\<lparr>Tags = Some [\<lparr>name = ''Code'', value = ''200''\<rparr>], Data = Some ''{"ref":"t1","prompt":"hi"}''\<rparr>\<close>
  let ?c = \<open>''{"n_gpu_layers":48,"ctx_size":20480}''\<close>
  have msg: "Messages ?r = Some (?first # [])
      \<and> Tags ?first = Some [\<lparr>name = ''Code'', value = ''200''\<rparr>]
      \<and> map_option value (find (\<lambda>t. name t = ''Code'') (rev [\<lparr>name = ''Code'', value = ''200''\<rparr>])) = Some ''200''
      \<and> Data ?first = Some (the (Data ?first))
      \<and> JSON_parse node_rt (the (Data ?first)) = Inr (JObj [(''ref'', JStr ''t1''), (''prompt'', JStr ''hi'')])"
    by (simp add: reply_def parse_task)
  have hb1: "getHBCache ?w (PoolProcess sample_config) ''pending_taskcount'' = Inr (JNum 1)
      \<and> Number_positive node_rt (JNum 1)
      \<and> requestHB ?w (PoolProcess sample_config)
          [(''Action'', JStr ''Get-Pending-Task''), (''Nodeid'', JStr (NODE_ID sample_config))] JUndefined
          = Inr ?r
      \<and> \<not> js_truthy (Error ?r)"
    by (simp add: pool_answers_def scripted_world_def reply_def node_rt_def node_Number_positive_def)
  have hb2: "JSON_stringify node_rt (Plain (JObj [(''n_gpu_layers'', JNum 48), (''ctx_size'', JNum 20480)])) = Inr (Some ?c)
      \<and> axios_get ?w (inference_url sample_config)
          ((''prompt'', ''hi'') # (if ?c = [] then [] else [(''config'', ?c)])) = Inr (JStr ''42'')"
    by (simp add: default_config_text pool_answers_def scripted_world_def)
  have hb: "getHBCache ?w (PoolProcess sample_config) ''pending_taskcount'' = Inr (JNum 1)
      \<and> Number_positive node_rt (JNum 1)
      \<and> requestHB ?w (PoolProcess sample_config)
          [(''Action'', JStr ''Get-Pending-Task''), (''Nodeid'', JStr (NODE_ID sample_config))] JUndefined
          = Inr ?r
      \<and> \<not> js_truthy (Error ?r)
      \<and> Messages ?r = Some (?first # [])
      \<and> Tags ?first = Some [\<lparr>name = ''Code'', value = ''200''\<rparr>]
      \<and> map_option value (find (\<lambda>t. name t = ''Code'') (rev [\<lparr>name = ''Code'', value = ''200''\<rparr>])) = Some ''200''
      \<and> Data ?first = Some (the (Data ?first))
      \<and> JSON_parse node_rt (the (Data ?first)) = Inr (JObj [(''ref'', JStr ''t1''), (''prompt'', JStr ''hi'')])
      \<and> JSON_stringify node_rt (Plain (JObj [(''n_gpu_layers'', JNum 48), (''ctx_size'', JNum 20480)])) = Inr (Some ?c)
      \<and> axios_get ?w (inference_url sample_config)
          ((''prompt'', ''hi'') # (if ?c = [] then [] else [(''config'', ?c)])) = Inr (JStr ''42'')"
    using hb1 msg hb2 by blast
  have ao1: "dryRun node_rt ?w (poolProcess sample_config) [(''Action'', Plain (JStr ''Has-Pending-Task''))] (Plain JNull) True
         = ([Dryrun \<lparr>process = POOL_PROCESS_ID sample_config, data = JStr ''null'',
                     tags = [\<lparr>name = ''Action'', value = JStr ''Has-Pending-Task''\<rparr>], Owner = None\<rparr>],
            Returned (reply [(''Code'', ''200'')] []))"
    by (rule check_call)
  have ao2: "tags_or_empty (reply [(''Code'', ''200'')] []) ''Code'' \<noteq> Some ''204''"
    by (simp add: checked_code)
  have ao3: "sendMessage node_rt ?w (poolProcess sample_config)
           [(''Action'', Plain (JStr ''Get-Pending-Task'')), (''NodeID'', Plain (JStr (NODE_ID sample_config)))]
           (Plain JNull) True
         = ([Message \<lparr>process = POOL_PROCESS_ID sample_config, data = JStr ''null'',
                      tags = [\<lparr>name = ''Action'', value = JStr ''Get-Pending-Task''\<rparr>,
                              \<lparr>name = ''NodeID'', value = JStr (NODE_ID sample_config)\<rparr>], Owner = None\<rparr>,
             FetchResult ''Get-Pending-Task'' (POOL_PROCESS_ID sample_config)],
            Returned ?r)"
    by (rule fetch_call)
  have ao4: \<open>axios_get ?w (inference_url sample_config) [(''prompt'', ''hi'')] = Inr (JStr ''42'')
      \<and> toString node_rt (Plain (JObj [(''output'', JStr ''42'')])) = Inr (JStr ''{"output":"42"}'')\<close>
    by (simp add: output_text pool_answers_def scripted_world_def)
  note ao = conjI[OF ao1 conjI[OF ao2 conjI[OF ao3 conjI[OF msg[THEN conjunct1]
     conjI[OF msg[THEN conjunct2, THEN conjunct1] conjI[OF msg[THEN conjunct2, THEN conjunct2, THEN conjunct1]
     conjI[OF msg[THEN conjunct2, THEN conjunct2, THEN conjunct2, THEN conjunct1]
     conjI[OF msg[THEN conjunct2, THEN conjunct2, THEN conjunct2, THEN conjunct2] ao4]]]]]]]]
  from fetch_200_infer_submit[THEN conjunct1, THEN mp, OF hb]
    fetch_200_infer_submit[THEN conjunct2, THEN mp, OF ao]
  show ?thesis
    by (simp add: sample_config_def PoolProcess_def inference_url_def pool_answers_def scripted_world_def)
qed

end
